theory Spec2Isabelle
  imports Main "HOL-Library.Char_ord"
begin

section \<open>Python strings and integers\<close>

text \<open>
  The program is Python 2: a \<open>str\<close> is a byte string (here \<open>string\<close>), an
  \<open>int\<close> is unbounded (here \<open>int\<close>) and \<open>/\<close> on two ints is floor division
  (\<open>div\<close> on \<open>int\<close>, with \<open>mod\<close> for \<open>%\<close>). Every exception the code can
  raise is a value of \<open>error\<close>: the two exceptions of the parser base class
  (\<open>UnexpectedTokenException\<close> carries the token read and, when \<open>assertToken\<close>
  raises it, the token expected), the built-in exceptions of Python, and the tokenizer's
  error of the spec. \<open>OutOfFuel\<close> is no exception of the program: it is the value of a
  bounded recursion whose bound is used up, and \<open>parse\<close> never returns it.
\<close>

datatype error =
    ExpectedMoreTokensException
  | UnexpectedTokenException string "string option"
  | ValueError
  | IndexError
  | AttributeError
  | AssertionError
  | TokenizationError
  | OutOfFuel

definition bindE :: "error + 'a \<Rightarrow> ('a \<Rightarrow> error + 'b) \<Rightarrow> error + 'b" where
  "bindE m f = (case m of Inl e \<Rightarrow> Inl e | Inr x \<Rightarrow> f x)"

definition startswith :: "string \<Rightarrow> string \<Rightarrow> bool" where
  "startswith s p = (take (length p) s = p)"

definition endswith :: "string \<Rightarrow> string \<Rightarrow> bool" where
  "endswith s p = (length p \<le> length s \<and> drop (length s - length p) s = p)"

text \<open>\<open>s[a:b]\<close> for non-negative \<open>a\<close> and \<open>b\<close>; empty when \<open>b \<le> a\<close>.\<close>

definition slice :: "string \<Rightarrow> nat \<Rightarrow> nat \<Rightarrow> string" where
  "slice s a b = take (b - a) (drop a s)"

text \<open>\<open>s.index(c)\<close>: the first position of \<open>c\<close>, ValueError when there is none.\<close>

fun index :: "string \<Rightarrow> char \<Rightarrow> error + nat" where
  "index [] c = Inl ValueError"
| "index (x # xs) c = (if x = c then Inr 0 else bindE (index xs c) (\<lambda>k. Inr (Suc k)))"

definition isspace :: "char \<Rightarrow> bool" where
  "isspace c = (c \<in> set [CHR '' '', CHR 0x09, CHR 0x0A, CHR 0x0B, CHR 0x0C, CHR 0x0D])"

definition strip :: "string \<Rightarrow> string" where
  "strip s = rev (dropWhile isspace (rev (dropWhile isspace s)))"

text \<open>\<open>s.split('\n')\<close>: always at least one piece.\<close>

fun split_acc :: "char \<Rightarrow> string \<Rightarrow> string \<Rightarrow> string list" where
  "split_acc sep cur [] = [rev cur]"
| "split_acc sep cur (c # cs) =
     (if c = sep then rev cur # split_acc sep [] cs else split_acc sep (c # cur) cs)"

definition split :: "string \<Rightarrow> char \<Rightarrow> string list" where
  "split s sep = split_acc sep [] s"

text \<open>\<open>str(n)\<close> and \<open>'%s' % n\<close> for an integer: decimal digits, a minus sign when negative.\<close>

definition digit_char :: "nat \<Rightarrow> char" where
  "digit_char d = ''0123456789'' ! d"

fun str_nat :: "nat \<Rightarrow> string" where
  "str_nat n = (if n < 10 then [digit_char n] else str_nat (n div 10) @ [digit_char (n mod 10)])"

declare str_nat.simps [simp del]

definition str_int :: "int \<Rightarrow> string" where
  "str_int i = (if i < 0 then CHR ''-'' # str_nat (nat (- i)) else str_nat (nat i))"

text \<open>
  \<open>int(s)\<close> on a token: an optional sign and at least one decimal digit, ValueError
  otherwise (a token holds no white space).
\<close>

definition isdigit :: "char \<Rightarrow> bool" where
  "isdigit c = (CHR ''0'' \<le> c \<and> c \<le> CHR ''9'')"

definition digit_val :: "char \<Rightarrow> nat" where
  "digit_val c = of_char c - of_char (CHR ''0'')"

definition nat_of_digits :: "string \<Rightarrow> nat" where
  "nat_of_digits ds = foldl (\<lambda>acc c. 10 * acc + digit_val c) 0 ds"

definition py_int :: "string \<Rightarrow> error + int" where
  "py_int s =
     (let (neg, ds) = (case s of
                         c # r \<Rightarrow> if c = CHR ''-'' then (True, r)
                                  else if c = CHR ''+'' then (False, r) else (False, s)
                       | [] \<Rightarrow> (False, s))
      in if ds \<noteq> [] \<and> list_all isdigit ds
         then Inr (if neg then - int (nat_of_digits ds) else int (nat_of_digits ds))
         else Inl ValueError)"

section \<open>The logical data model\<close>

text \<open>
  The expression classes of \<open>nltk.sem.drt\<close> that the parser and \<open>_nn\<close> construct or
  test with \<open>isinstance\<close>. \<open>DrtOrExpression\<close>, \<open>DrtImpExpression\<close>,
  \<open>ConcatenationDRS\<close> and \<open>DrtEqualityExpression\<close> are the subclasses of
  \<open>BinaryExpression\<close>; the constructor of the class is the \<open>binop\<close> tag, so that
  \<open>drs.__class__(a, b)\<close> rebuilds a node of the same class.
\<close>

datatype variable = Variable (name: string)

datatype binop = DrtOrExpression | DrtImpExpression | ConcatenationDRS | DrtEqualityExpression

datatype expr =
    DRS "variable list" "expr list"
  | DrtNegatedExpression expr
  | DrtLambdaExpression variable expr
  | BinaryExpression binop expr expr
  | DrtApplicationExpression expr expr
  | DrtVariableExpression variable

section \<open>The parser object and its name builders\<close>

record BoxerDrsParser =
  occur_index :: bool
  discourse_id :: "string option"

text \<open>\<open>_make_Variable\<close> (lines 601-604).\<close>

definition make_Variable :: "string \<Rightarrow> variable" where
  "make_Variable nm = (if startswith nm ''_G'' then Variable (''z'' @ drop 2 nm) else Variable nm)"

text \<open>
  The body of the loop of \<open>_parse_index_list\<close> (lines 516-518): the pair appended for
  one index token.
\<close>

definition decode_index :: "int \<Rightarrow> int \<times> int" where
  "decode_index base_index = (base_index div 1000 - 1, base_index mod 1000 - 1)"

text \<open>
  Modelled from the spec: the encoding of a (sentence, word) position by the external
  tool, \<open>1000*(sentence+1) + (word+1)\<close>; the tool is not part of the sources.
\<close>

definition encode_index :: "int \<times> int \<Rightarrow> int" where
  "encode_index p = 1000 * (fst p + 1) + (snd p + 1)"

text \<open>\<open>_format_pred_name\<close> (lines 344-353).\<close>

definition format_pred_name :: "string \<Rightarrow> string" where
  "format_pred_name nm =
     filter (\<lambda>c. (CHR ''A'' \<le> c \<and> c \<le> CHR ''Z'') \<or> (CHR ''a'' \<le> c \<and> c \<le> CHR ''z'')
                 \<or> (CHR ''0'' \<le> c \<and> c \<le> CHR ''9'') \<or> c = CHR ''_'') nm"

text \<open>
  \<open>_make_pred\<close> (lines 498-508). \<open>self.discourse_id and indices\<close> is false for
  \<open>None\<close>, for the empty string and for the empty list.
\<close>

definition make_pred ::
  "BoxerDrsParser \<Rightarrow> string \<Rightarrow> string \<Rightarrow> (int \<times> int) list \<Rightarrow> int \<Rightarrow> string" where
  "make_pred self pos nm indices arity =
     (let disc_id_str = (case discourse_id self of
                           Some d \<Rightarrow> if d \<noteq> [] \<and> indices \<noteq> [] then d @ ''_'' else []
                         | None \<Rightarrow> []);
          index_str = (if occur_index self \<and> indices \<noteq> []
                       then ''s'' @ str_int (fst (hd indices)) @ ''_w''
                            @ str_int (snd (hd indices)) @ ''_''
                       else []);
          pos' = (if indices = [] then ''r'' else pos)
      in pos' @ ''_'' @ nm @ ''_'' @ disc_id_str @ index_str @ str_int arity)"


section \<open>The token stream\<close>

text \<open>
  Modelled from the spec: the cursor over the token sequence (\<open>token\<close>,
  \<open>assertToken\<close> of the parser base class in \<open>nltk.sem.logic\<close>, which is not
  among the sources). \<open>token toks\<close> is \<open>self.token()\<close>: it consumes one token;
  \<open>token0 toks\<close> is the lookahead \<open>self.token(0)\<close>; both fail at the end of the
  stream. \<open>assertToken\<close> fails with the actual and the expected token. The parser's
  state is the list of the tokens not yet consumed, passed through every function.
\<close>

type_synonym tokens = "string list"
type_synonym indices = "(int \<times> int) list"

definition token :: "tokens \<Rightarrow> error + (string \<times> tokens)" where
  "token toks = (case toks of [] \<Rightarrow> Inl ExpectedMoreTokensException | t # ts \<Rightarrow> Inr (t, ts))"

definition token0 :: "tokens \<Rightarrow> error + string" where
  "token0 toks = (case toks of [] \<Rightarrow> Inl ExpectedMoreTokensException | t # ts \<Rightarrow> Inr t)"

definition assertToken :: "string \<Rightarrow> string \<Rightarrow> error + unit" where
  "assertToken tok expected =
     (if tok \<noteq> expected then Inl (UnexpectedTokenException tok (Some expected)) else Inr ())"

text \<open>\<open>self.assertToken(self.token(), expected)\<close>.\<close>

definition expect :: "string \<Rightarrow> tokens \<Rightarrow> error + tokens" where
  "expect expected toks =
     bindE (token toks) (\<lambda>(tok, toks). bindE (assertToken tok expected) (\<lambda>_. Inr toks))"

lemma bindE_cong [fundef_cong]:
  "m = m' \<Longrightarrow> (\<And>x. m' = Inr x \<Longrightarrow> f x = f' x) \<Longrightarrow> bindE m f = bindE m' f'"
  by (simp add: bindE_def split: sum.splits)

lemma token_length: "token toks = Inr (t, r) \<Longrightarrow> length r < length toks"
  by (auto simp: token_def split: list.splits)

lemma expect_length: "expect e toks = Inr r \<Longrightarrow> length r < length toks"
  by (auto simp: expect_def token_def bindE_def assertToken_def split: list.splits if_splits)

section \<open>The term parser\<close>

text \<open>\<open>_parse_index_list\<close> (lines 510-523); the loop first.\<close>

function parse_index_loop :: "tokens \<Rightarrow> indices \<Rightarrow> error + (indices \<times> tokens)" where
  "parse_index_loop toks indices =
     bindE (token0 toks) (\<lambda>t0.
       if t0 \<noteq> '']'' then
         bindE (token toks) (\<lambda>(tok, toks).
         bindE (py_int tok) (\<lambda>base_index.
         bindE (token0 toks) (\<lambda>t1.
           if t1 = '','' then
             bindE (token toks) (\<lambda>(_, toks).
               parse_index_loop toks (indices @ [decode_index base_index]))
           else parse_index_loop toks (indices @ [decode_index base_index]))))
       else Inr (indices, toks))"
  by pat_completeness auto
termination
  by (relation "measure (\<lambda>(toks, indices). length toks)") (auto dest!: token_length)

declare parse_index_loop.simps [simp del]

definition parse_index_list :: "tokens \<Rightarrow> error + (indices \<times> tokens)" where
  "parse_index_list toks =
     bindE (expect ''['' toks) (\<lambda>toks.
     bindE (parse_index_loop toks []) (\<lambda>(indices, toks).
     bindE (token toks) (\<lambda>(_, toks).
     bindE (expect '':'' toks) (\<lambda>toks. Inr (indices, toks)))))"

text \<open>
  \<open>_make_atom\<close> (lines 479-496). An argument is a \<open>str\<close>, a \<open>Variable\<close> or an
  expression; anything but a variable expression fails the assertion. The factory
  \<open>DrtVariableExpression\<close> of the library picks a subclass of
  \<open>DrtAbstractVariableExpression\<close> from the name; the subclasses are not told apart
  here.
\<close>

datatype pyarg = Str string | Var variable | Expr expr

definition as_variable_expression :: "pyarg \<Rightarrow> error + expr" where
  "as_variable_expression a =
     (case a of
        Str s \<Rightarrow> Inr (DrtVariableExpression (make_Variable s))
      | Var v \<Rightarrow> Inr (DrtVariableExpression v)
      | Expr e \<Rightarrow> (case e of DrtVariableExpression v \<Rightarrow> Inr e | _ \<Rightarrow> Inl AssertionError))"

fun make_atom_loop :: "expr \<Rightarrow> pyarg list \<Rightarrow> error + expr" where
  "make_atom_loop accum [] = Inr accum"
| "make_atom_loop accum (arg # args) =
     bindE (as_variable_expression arg) (\<lambda>arg.
       make_atom_loop (DrtApplicationExpression accum arg) args)"

definition make_atom :: "pyarg \<Rightarrow> pyarg list \<Rightarrow> error + expr" where
  "make_atom pred args = bindE (as_variable_expression pred) (\<lambda>pred. make_atom_loop pred args)"

text \<open>\<open>_handle_pred\<close> (lines 330-342).\<close>

definition handle_pred ::
  "BoxerDrsParser \<Rightarrow> indices \<Rightarrow> tokens \<Rightarrow> error + (expr \<times> tokens)" where
  "handle_pred self indices toks =
     bindE (expect ''('' toks) (\<lambda>toks.
     bindE (token toks) (\<lambda>(arg, toks).
     bindE (expect '','' toks) (\<lambda>toks.
     bindE (token toks) (\<lambda>(tok, toks). let f_name = format_pred_name tok in
     bindE (expect '','' toks) (\<lambda>toks.
     bindE (token toks) (\<lambda>(f_pos, toks).
     bindE (expect '','' toks) (\<lambda>toks.
     bindE (token toks) (\<lambda>(f_sense, toks).
     bindE (expect '')'' toks) (\<lambda>toks.
     let f_pred = make_pred self f_pos f_name indices 1 in
     bindE (make_atom (Str f_pred) [Str arg]) (\<lambda>atom. Inr (atom, toks)))))))))))"

text \<open>\<open>_handle_named\<close> (lines 355-367).\<close>

definition handle_named ::
  "BoxerDrsParser \<Rightarrow> indices \<Rightarrow> tokens \<Rightarrow> error + (expr \<times> tokens)" where
  "handle_named self indices toks =
     bindE (expect ''('' toks) (\<lambda>toks.
     bindE (token toks) (\<lambda>(arg, toks).
     bindE (expect '','' toks) (\<lambda>toks.
     bindE (token toks) (\<lambda>(tok, toks). let f_name = format_pred_name tok in
     bindE (expect '','' toks) (\<lambda>toks.
     bindE (token toks) (\<lambda>(f_pos, toks).
     bindE (expect '','' toks) (\<lambda>toks.
     bindE (token toks) (\<lambda>(f_sense, toks).
     bindE (expect '')'' toks) (\<lambda>toks.
     let f_pred = ''n_'' @ f_name @ ''_'' @ str_int 1 in
     bindE (make_atom (Str f_pred) [Str arg]) (\<lambda>atom. Inr (atom, toks)))))))))))"

text \<open>\<open>_handle_rel\<close> (lines 369-381).\<close>

definition handle_rel ::
  "BoxerDrsParser \<Rightarrow> indices \<Rightarrow> tokens \<Rightarrow> error + (expr \<times> tokens)" where
  "handle_rel self indices toks =
     bindE (expect ''('' toks) (\<lambda>toks.
     bindE (token toks) (\<lambda>(arg1, toks).
     bindE (expect '','' toks) (\<lambda>toks.
     bindE (token toks) (\<lambda>(arg2, toks).
     bindE (expect '','' toks) (\<lambda>toks.
     bindE (token toks) (\<lambda>(tok, toks). let f_name = format_pred_name tok in
     bindE (expect '','' toks) (\<lambda>toks.
     bindE (token toks) (\<lambda>(f_sense, toks).
     bindE (expect '')'' toks) (\<lambda>toks.
     let f_pred = ''r_'' @ f_name @ ''_'' @ str_int 2 in
     bindE (make_atom (Str f_pred) [Str arg1, Str arg2]) (\<lambda>atom. Inr (atom, toks)))))))))))"

text \<open>\<open>_handle_date\<close> (lines 406-435).\<close>

definition handle_date :: "string \<Rightarrow> tokens \<Rightarrow> error + (expr list \<times> tokens)" where
  "handle_date arg toks =
     (let conds = [] in
      bindE (parse_index_list toks) (\<lambda>(_, toks).
      bindE (token toks) (\<lambda>(pol, toks).
      bindE (if pol = ''+'' then
               bindE (make_atom (Str ''r_pol_2'') [Str arg, Str ''pos'']) (\<lambda>a. Inr (conds @ [a]))
             else if pol = ''-'' then
               bindE (make_atom (Str ''r_pol_2'') [Str arg, Str ''neg'']) (\<lambda>a. Inr (conds @ [a]))
             else Inr conds) (\<lambda>conds.
      bindE (expect '','' toks) (\<lambda>toks.
      bindE (parse_index_list toks) (\<lambda>(_, toks).
      bindE (token toks) (\<lambda>(year, toks).
      bindE (if year \<noteq> ''XXXX'' then
               (let year = map (\<lambda>c. if c = CHR '':'' then CHR ''_'' else c) year in
                bindE (make_atom (Str ''r_year_2'') [Str arg, Str year]) (\<lambda>a. Inr (conds @ [a])))
             else Inr conds) (\<lambda>conds.
      bindE (expect '','' toks) (\<lambda>toks.
      bindE (parse_index_list toks) (\<lambda>(_, toks).
      bindE (token toks) (\<lambda>(month, toks).
      bindE (if month \<noteq> ''XX'' then
               bindE (make_atom (Str ''r_month_2'') [Str arg, Str month]) (\<lambda>a. Inr (conds @ [a]))
             else Inr conds) (\<lambda>conds.
      bindE (expect '','' toks) (\<lambda>toks.
      bindE (parse_index_list toks) (\<lambda>(_, toks).
      bindE (token toks) (\<lambda>(day, toks).
      bindE (if day \<noteq> ''XX'' then
               bindE (make_atom (Str ''r_day_2'') [Str arg, Str day]) (\<lambda>a. Inr (conds @ [a]))
             else Inr conds) (\<lambda>conds.
      Inr (conds, toks)))))))))))))))))"

text \<open>\<open>_handle_time\<close> (lines 437-457).\<close>

definition handle_time :: "string \<Rightarrow> tokens \<Rightarrow> error + (expr list \<times> tokens)" where
  "handle_time arg toks =
     (let conds = [] in
      bindE (parse_index_list toks) (\<lambda>(_, toks).
      bindE (token toks) (\<lambda>(hour, toks).
      bindE (if hour \<noteq> ''XX'' then
               bindE (make_atom (Str ''r_hour_2'') [Str arg, Str hour]) (\<lambda>a. Inr (conds @ [a]))
             else Inr conds) (\<lambda>conds.
      bindE (expect '','' toks) (\<lambda>toks.
      bindE (parse_index_list toks) (\<lambda>(_, toks).
      bindE (token toks) (\<lambda>(min, toks).
      bindE (if min \<noteq> ''XX'' then
               bindE (make_atom (Str ''r_min_2'') [Str arg, Str min]) (\<lambda>a. Inr (conds @ [a]))
             else Inr conds) (\<lambda>conds.
      bindE (expect '','' toks) (\<lambda>toks.
      bindE (parse_index_list toks) (\<lambda>(_, toks).
      bindE (token toks) (\<lambda>(sec, toks).
      bindE (if sec \<noteq> ''XX'' then
               bindE (make_atom (Str ''r_sec_2'') [Str arg, Str sec]) (\<lambda>a. Inr (conds @ [a]))
             else Inr conds) (\<lambda>conds.
      Inr (conds, toks)))))))))))))"

text \<open>
  \<open>_handle_time_expression\<close> (lines 392-404); \<open>None\<close> when the functor is neither
  \<open>date\<close> nor \<open>time\<close>. \<open>time_expression_conds\<close> is its end (lines 402-404),
  reached from both branches.
\<close>

definition time_expression_conds ::
  "string \<Rightarrow> string \<Rightarrow> expr list \<Rightarrow> tokens \<Rightarrow> error + (expr list option \<times> tokens)" where
  "time_expression_conds tok arg conds toks =
     bindE (expect '')'' toks) (\<lambda>toks.
     let pred = ''r_'' @ tok @ ''_1'' in
     bindE (make_atom (Str pred) [Str arg]) (\<lambda>atom. Inr (Some ([atom] @ conds), toks)))"

definition handle_time_expression ::
  "string \<Rightarrow> tokens \<Rightarrow> error + (expr list option \<times> tokens)" where
  "handle_time_expression arg toks =
     bindE (token toks) (\<lambda>(tok, toks).
     bindE (expect ''('' toks) (\<lambda>toks.
       if tok = ''date'' then
         bindE (handle_date arg toks) (\<lambda>(conds, toks). time_expression_conds tok arg conds toks)
       else if tok = ''time'' then
         bindE (handle_time arg toks) (\<lambda>(conds, toks). time_expression_conds tok arg conds toks)
       else Inr (None, toks)))"

text \<open>\<open>_handle_timex\<close> (lines 383-390).\<close>

definition handle_timex ::
  "BoxerDrsParser \<Rightarrow> indices \<Rightarrow> tokens \<Rightarrow> error + (expr list option \<times> tokens)" where
  "handle_timex self indices toks =
     bindE (expect ''('' toks) (\<lambda>toks.
     bindE (token toks) (\<lambda>(arg, toks).
     bindE (expect '','' toks) (\<lambda>toks.
     bindE (handle_time_expression arg toks) (\<lambda>(new_conds, toks).
     bindE (expect '')'' toks) (\<lambda>toks. Inr (new_conds, toks))))))"

text \<open>\<open>_handle_card\<close> (lines 459-468).\<close>

definition handle_card ::
  "BoxerDrsParser \<Rightarrow> indices \<Rightarrow> tokens \<Rightarrow> error + (expr \<times> tokens)" where
  "handle_card self indices toks =
     bindE (expect ''('' toks) (\<lambda>toks.
     bindE (token toks) (\<lambda>(arg, toks).
     bindE (expect '','' toks) (\<lambda>toks.
     bindE (token toks) (\<lambda>(val, toks).
     bindE (expect '','' toks) (\<lambda>toks.
     bindE (token toks) (\<lambda>(rel, toks).
     bindE (expect '')'' toks) (\<lambda>toks.
     bindE (make_atom (Str ''r_card_3'') [Str arg, Str val, Str rel]) (\<lambda>atom.
       Inr (atom, toks)))))))))"

text \<open>\<open>_handle_eq\<close> (lines 558-564).\<close>

definition handle_eq ::
  "BoxerDrsParser \<Rightarrow> indices \<Rightarrow> tokens \<Rightarrow> error + (expr \<times> tokens)" where
  "handle_eq self indices toks =
     bindE (expect ''('' toks) (\<lambda>toks.
     bindE (token toks) (\<lambda>(tok1, toks). let e1 = DrtVariableExpression (make_Variable tok1) in
     bindE (expect '','' toks) (\<lambda>toks.
     bindE (token toks) (\<lambda>(tok2, toks). let e2 = DrtVariableExpression (make_Variable tok2) in
     bindE (expect '')'' toks) (\<lambda>toks.
       Inr (BinaryExpression DrtEqualityExpression e1 e2, toks))))))"


lemma parse_index_loop_length:
  "parse_index_loop toks acc = Inr (ixs, r) \<Longrightarrow> length r \<le> length toks"
proof (induction toks acc rule: parse_index_loop.induct)
  case (1 toks indices)
  from "1.prems" obtain t0 where t0: "token0 toks = Inr t0"
    by (subst (asm) parse_index_loop.simps) (auto simp: bindE_def split: sum.splits)
  show ?case
  proof (cases "t0 = '']''")
    case True
    with "1.prems" t0 show ?thesis
      by (subst (asm) parse_index_loop.simps) (simp add: bindE_def)
  next
    case False
    with "1.prems" t0 obtain tok ts base t1 where
      a: "token toks = Inr (tok, ts)" and b: "py_int tok = Inr base" and c: "token0 ts = Inr t1"
      by (subst (asm) parse_index_loop.simps) (auto simp: bindE_def split: sum.splits)
    have lt: "length ts < length toks" using a by (rule token_length)
    show ?thesis
    proof (cases "t1 = '',''")
      case True
      with "1.prems" t0 False a b c obtain u ts' where
        d: "token ts = Inr (u, ts')" and
        e: "parse_index_loop ts' (indices @ [decode_index base]) = Inr (ixs, r)"
        by (subst (asm) parse_index_loop.simps) (auto simp: bindE_def split: sum.splits)
      have "length r \<le> length ts'"
        using "1.IH"(1) [OF t0 False a refl b c True d refl e] .
      moreover have "length ts' < length ts" using d by (rule token_length)
      ultimately show ?thesis using lt by simp
    next
      case F: False
      with "1.prems" t0 False a b c have
        e: "parse_index_loop ts (indices @ [decode_index base]) = Inr (ixs, r)"
        by (subst (asm) parse_index_loop.simps) (auto simp: bindE_def split: sum.splits)
      have "length r \<le> length ts"
        using "1.IH"(2) [OF t0 False a refl b c F e] .
      then show ?thesis using lt by simp
    qed
  qed
qed

lemma parse_index_list_length:
  "parse_index_list toks = Inr (ixs, r) \<Longrightarrow> length r < length toks"
  by (auto simp: parse_index_list_def bindE_def split: sum.splits prod.splits
           dest!: expect_length token_length parse_index_loop_length)

text \<open>The first loop of \<open>parse_drs\<close> (lines 531-536): the referents.\<close>

function parse_drs_refs :: "tokens \<Rightarrow> variable list \<Rightarrow> error + (variable list \<times> tokens)" where
  "parse_drs_refs toks refs =
     bindE (token0 toks) (\<lambda>t0.
       if t0 \<noteq> '']'' then
         bindE (parse_index_list toks) (\<lambda>(indices, toks).
         bindE (token toks) (\<lambda>(tok, toks).
         bindE (token0 toks) (\<lambda>t1.
           if t1 = '','' then
             bindE (token toks) (\<lambda>(_, toks). parse_drs_refs toks (refs @ [make_Variable tok]))
           else parse_drs_refs toks (refs @ [make_Variable tok]))))
       else Inr (refs, toks))"
  by pat_completeness auto
termination
  by (relation "measure (\<lambda>(toks, refs). length toks)")
     (auto dest!: token_length parse_index_list_length)

declare parse_drs_refs.simps [simp del]

text \<open>The loop of \<open>_handle_whq\<close> (lines 570-589): the answer types.\<close>

function whq_ans_types :: "tokens \<Rightarrow> string list \<Rightarrow> error + (string list \<times> tokens)" where
  "whq_ans_types toks ans_types =
     bindE (token0 toks) (\<lambda>t0.
       if t0 \<noteq> '']'' then
         bindE (token toks) (\<lambda>(cat, toks).
         bindE (expect '':'' toks) (\<lambda>toks.
           if cat = ''des'' then
             bindE (token toks) (\<lambda>(tok, toks). whq_ans_types toks (ans_types @ [tok]))
           else if cat = ''num'' then
             bindE (token toks) (\<lambda>(typ, toks).
               if typ = ''cou'' then whq_ans_types toks (ans_types @ [''number''] @ [''count''])
               else whq_ans_types toks (ans_types @ [''number''] @ [typ]))
           else
             bindE (token toks) (\<lambda>(tok, toks). whq_ans_types toks (ans_types @ [tok]))))
       else Inr (ans_types, toks))"
  by pat_completeness auto
termination
  by (relation "measure (\<lambda>(toks, ans_types). length toks)")
     (auto dest!: token_length expect_length)

declare whq_ans_types.simps [simp del]

text \<open>
  The list comprehension of line 598:
  \<open>[self._make_atom(self._make_pred('n', f_name, [], 1), ref) for f_name in ans_types]\<close>.
\<close>

fun whq_atoms :: "BoxerDrsParser \<Rightarrow> expr \<Rightarrow> string list \<Rightarrow> error + expr list" where
  "whq_atoms self ref [] = Inr []"
| "whq_atoms self ref (f_name # ans_types) =
     bindE (make_atom (Str (make_pred self ''n'' f_name [] 1)) [Expr ref]) (\<lambda>atom.
     bindE (whq_atoms self ref ans_types) (\<lambda>atoms. Inr (atom # atoms)))"

text \<open>
  The recursive productions. In the source they call \<open>self.parse_Expression\<close>; here
  each takes that parser of sub-terms as the parameter \<open>pe\<close>, and
  \<open>parse_Expression\<close> below closes the recursion.
\<close>

type_synonym term_parser = "tokens \<Rightarrow> error + (expr \<times> tokens)"

text \<open>\<open>_make_binary_expression\<close> (lines 550-556).\<close>

definition make_binary_expression :: "term_parser \<Rightarrow> binop \<Rightarrow> tokens \<Rightarrow> error + (expr \<times> tokens)" where
  "make_binary_expression pe constructor toks =
     bindE (expect ''('' toks) (\<lambda>toks.
     bindE (pe toks) (\<lambda>(e1, toks).
     bindE (expect '','' toks) (\<lambda>toks.
     bindE (pe toks) (\<lambda>(e2, toks).
     bindE (expect '')'' toks) (\<lambda>toks.
       Inr (BinaryExpression constructor e1 e2, toks))))))"

text \<open>\<open>_handle_prop\<close> (lines 470-477).\<close>

definition handle_prop :: "term_parser \<Rightarrow> indices \<Rightarrow> tokens \<Rightarrow> error + (expr \<times> tokens)" where
  "handle_prop pe indices toks =
     bindE (expect ''('' toks) (\<lambda>toks.
     bindE (token toks) (\<lambda>(arg, toks).
     bindE (expect '','' toks) (\<lambda>toks.
     bindE (pe toks) (\<lambda>(drs, toks).
     bindE (expect '')'' toks) (\<lambda>toks.
       Inr (drs, toks))))))"

text \<open>\<open>_handle_whq\<close> (lines 566-599).\<close>

definition handle_whq ::
  "BoxerDrsParser \<Rightarrow> term_parser \<Rightarrow> indices \<Rightarrow> tokens \<Rightarrow> error + (expr \<times> tokens)" where
  "handle_whq self pe indices toks =
     bindE (expect ''('' toks) (\<lambda>toks.
     bindE (expect ''['' toks) (\<lambda>toks.
     bindE (whq_ans_types toks []) (\<lambda>(ans_types, toks).
     bindE (token toks) (\<lambda>(_, toks).
     bindE (expect '','' toks) (\<lambda>toks.
     bindE (pe toks) (\<lambda>(d1, toks).
     bindE (expect '','' toks) (\<lambda>toks.
     bindE (token toks) (\<lambda>(tok, toks). let ref = DrtVariableExpression (make_Variable tok) in
     bindE (expect '','' toks) (\<lambda>toks.
     bindE (pe toks) (\<lambda>(d2, toks).
     bindE (expect '')'' toks) (\<lambda>toks.
     bindE (whq_atoms self ref ans_types) (\<lambda>atoms.
     let d3 = DRS [] atoms in
       Inr (BinaryExpression ConcatenationDRS d3 (BinaryExpression ConcatenationDRS d1 d2),
            toks)))))))))))))"

text \<open>\<open>handle_condition\<close> (lines 294-328); \<open>None\<close> when no branch is taken.\<close>

definition handle_condition ::
  "BoxerDrsParser \<Rightarrow> term_parser \<Rightarrow> string \<Rightarrow> indices \<Rightarrow> tokens
     \<Rightarrow> error + (expr list option \<times> tokens)" where
  "handle_condition self pe tok indices toks =
     (if tok = ''not'' then
        bindE (expect ''('' toks) (\<lambda>toks.
        bindE (pe toks) (\<lambda>(e, toks).
        bindE (expect '')'' toks) (\<lambda>toks.
          Inr (Some [DrtNegatedExpression e], toks))))
      else if tok = ''or'' then
        bindE (make_binary_expression pe DrtOrExpression toks) (\<lambda>(e, toks). Inr (Some [e], toks))
      else if tok = ''imp'' then
        bindE (make_binary_expression pe DrtImpExpression toks) (\<lambda>(e, toks). Inr (Some [e], toks))
      else if tok = ''eq'' then
        bindE (handle_eq self indices toks) (\<lambda>(e, toks). Inr (Some [e], toks))
      else if tok = ''prop'' then
        bindE (handle_prop pe indices toks) (\<lambda>(e, toks). Inr (Some [e], toks))
      else if tok = ''pred'' then
        bindE (handle_pred self indices toks) (\<lambda>(e, toks). Inr (Some [e], toks))
      else if tok = ''named'' then
        bindE (handle_named self indices toks) (\<lambda>(e, toks). Inr (Some [e], toks))
      else if tok = ''rel'' then
        bindE (handle_rel self indices toks) (\<lambda>(e, toks). Inr (Some [e], toks))
      else if tok = ''timex'' then
        handle_timex self indices toks
      else if tok = ''card'' then
        bindE (handle_card self indices toks) (\<lambda>(e, toks). Inr (Some [e], toks))
      else if tok = ''whq'' then
        bindE (handle_whq self pe indices toks) (\<lambda>(e, toks). Inr (Some [e], toks))
      else Inr (None, toks))"

text \<open>The keywords that \<open>handle_condition\<close> tests for (lines 301-327).\<close>

definition condition_keywords :: "string list" where
  "condition_keywords =
     [''not'', ''or'', ''imp'', ''eq'', ''prop'', ''pred'', ''named'', ''rel'', ''timex'',
      ''card'', ''whq'']"

text \<open>\<open>parse_condition\<close> (lines 274-284).\<close>

definition parse_condition ::
  "BoxerDrsParser \<Rightarrow> term_parser \<Rightarrow> indices \<Rightarrow> tokens \<Rightarrow> error + (expr list \<times> tokens)" where
  "parse_condition self pe indices toks =
     bindE (token toks) (\<lambda>(tok, toks).
     bindE (handle_condition self pe tok indices toks) (\<lambda>(accum, toks).
       case accum of
         None \<Rightarrow> Inl (UnexpectedTokenException tok None)
       | Some conds \<Rightarrow> Inr (conds, toks)))"

text \<open>
  The second loop of \<open>parse_drs\<close> (lines 540-545): the conditions. Each turn takes one
  unit of the fuel \<open>n\<close>.
\<close>

fun parse_drs_conds ::
  "BoxerDrsParser \<Rightarrow> term_parser \<Rightarrow> nat \<Rightarrow> tokens \<Rightarrow> expr list
     \<Rightarrow> error + (expr list \<times> tokens)" where
  "parse_drs_conds self pe 0 toks conds =
     bindE (token0 toks) (\<lambda>t0. if t0 \<noteq> '']'' then Inl OutOfFuel else Inr (conds, toks))"
| "parse_drs_conds self pe (Suc n) toks conds =
     bindE (token0 toks) (\<lambda>t0.
       if t0 \<noteq> '']'' then
         bindE (parse_index_list toks) (\<lambda>(indices, toks).
         bindE (parse_condition self pe indices toks) (\<lambda>(new_conds, toks).
         bindE (token0 toks) (\<lambda>t1.
           if t1 = '','' then
             bindE (token toks) (\<lambda>(_, toks). parse_drs_conds self pe n toks (conds @ new_conds))
           else parse_drs_conds self pe n toks (conds @ new_conds))))
       else Inr (conds, toks))"

text \<open>\<open>parse_drs\<close> (lines 525-548).\<close>

definition parse_drs ::
  "BoxerDrsParser \<Rightarrow> term_parser \<Rightarrow> nat \<Rightarrow> tokens \<Rightarrow> error + (expr \<times> tokens)" where
  "parse_drs self pe n toks =
     bindE (expect ''('' toks) (\<lambda>toks.
     bindE (expect ''['' toks) (\<lambda>toks.
     bindE (parse_drs_refs toks []) (\<lambda>(refs, toks).
     bindE (token toks) (\<lambda>(_, toks).
     bindE (expect '','' toks) (\<lambda>toks.
     bindE (expect ''['' toks) (\<lambda>toks.
     bindE (parse_drs_conds self pe n toks []) (\<lambda>(conds, toks).
     bindE (token toks) (\<lambda>(_, toks).
     bindE (expect '')'' toks) (\<lambda>toks.
       Inr (DRS refs conds, toks))))))))))"

text \<open>\<open>handle_drs\<close> (lines 286-292); \<open>None\<close> when no branch is taken.\<close>

definition handle_drs ::
  "BoxerDrsParser \<Rightarrow> term_parser \<Rightarrow> nat \<Rightarrow> string \<Rightarrow> tokens
     \<Rightarrow> error + (expr option \<times> tokens)" where
  "handle_drs self pe n tok toks =
     (if tok = ''drs'' then
        bindE (parse_drs self pe n toks) (\<lambda>(e, toks). Inr (Some e, toks))
      else if tok = ''merge'' then
        bindE (make_binary_expression pe ConcatenationDRS toks) (\<lambda>(e, toks). Inr (Some e, toks))
      else if tok = ''smerge'' then
        bindE (make_binary_expression pe ConcatenationDRS toks) (\<lambda>(e, toks). Inr (Some e, toks))
      else Inr (None, toks))"

text \<open>
  \<open>parse_Expression\<close> belongs to the parser base class (not among the sources): it
  reads one token, calls \<open>handle\<close> (line 268, which is \<open>handle_drs\<close>), fails on
  \<open>None\<close> and passes the result through \<open>attempt_adjuncts\<close> (line 271, the
  identity). Modelled from the spec: a term whose head token is not one of the grammar's
  is a parse error naming the token.

  The recursion is bounded by the fuel \<open>n\<close>: the nesting depth of terms and the
  number of turns of each condition loop.
\<close>

primrec parse_Expression :: "BoxerDrsParser \<Rightarrow> nat \<Rightarrow> tokens \<Rightarrow> error + (expr \<times> tokens)" where
  "parse_Expression self 0 toks = Inl OutOfFuel"
| "parse_Expression self (Suc n) toks =
     bindE (token toks) (\<lambda>(tok, toks).
     bindE (handle_drs self (parse_Expression self n) n tok toks) (\<lambda>(accum, toks).
       case accum of
         None \<Rightarrow> Inl (UnexpectedTokenException tok None)
       | Some e \<Rightarrow> Inr (e, toks)))"

section \<open>The simplifier's compound-noun pass\<close>

text \<open>
  Modelled from the spec: \<open>uncurry\<close> of an application expression (a method of the
  library's \<open>ApplicationExpression\<close>, not among the sources) unwinds the application
  chain into its base function and the arguments in order.
\<close>

fun uncurry_loop :: "expr \<Rightarrow> expr list \<Rightarrow> expr \<times> expr list" where
  "uncurry_loop (DrtApplicationExpression function argument) args =
     uncurry_loop function (argument # args)"
| "uncurry_loop function args = (function, args)"

definition uncurry :: "expr \<Rightarrow> expr \<Rightarrow> expr \<times> expr list" where
  "uncurry function argument = uncurry_loop function [argument]"

text \<open>
  \<open>func.variable.name\<close> (line 228): variable expressions and binders have the
  attribute \<open>variable\<close>, the other classes do not.
\<close>

definition variable_name :: "expr \<Rightarrow> error + string" where
  "variable_name func =
     (case func of
        DrtVariableExpression v \<Rightarrow> Inr (name v)
      | DrtLambdaExpression v t \<Rightarrow> Inr (name v)
      | _ \<Rightarrow> Inl AttributeError)"

text \<open>\<open>map(f, xs)\<close> and a \<open>for\<close> loop over a list, with a body that may raise.\<close>

fun mapE :: "('a \<Rightarrow> error + 'b) \<Rightarrow> 'a list \<Rightarrow> error + 'b list" where
  "mapE f [] = Inr []"
| "mapE f (x # xs) = bindE (f x) (\<lambda>y. bindE (mapE f xs) (\<lambda>ys. Inr (y # ys)))"

fun forE :: "('s \<Rightarrow> 'a \<Rightarrow> error + 's) \<Rightarrow> 's \<Rightarrow> 'a list \<Rightarrow> error + 's" where
  "forE body s [] = Inr s"
| "forE body s (x # xs) = bindE (body s x) (\<lambda>s. forE body s xs)"

lemma mapE_cong [fundef_cong]:
  "xs = ys \<Longrightarrow> (\<And>x. x \<in> set ys \<Longrightarrow> f x = g x) \<Longrightarrow> mapE f xs = mapE g ys"
  by (induction ys arbitrary: xs) (auto simp: bindE_def)

lemma forE_cong [fundef_cong]:
  "xs = ys \<Longrightarrow> s = s' \<Longrightarrow> (\<And>s x. x \<in> set ys \<Longrightarrow> f s x = g s x) \<Longrightarrow> forE f s xs = forE g s' ys"
  by (induction ys arbitrary: xs s s') (auto simp: bindE_def)

lemma uncurry_loop_size:
  "uncurry_loop f args = (func, args') \<Longrightarrow>
     size func \<le> size f \<and> (\<forall>x \<in> set args'. x \<in> set args \<or> size x < size f)"
proof (induction f args rule: uncurry_loop.induct)
  case (1 fn argument args)
  from "1.prems" have "uncurry_loop fn (argument # args) = (func, args')"
    by simp
  from "1.IH" [OF this] show ?case
    by auto
qed simp_all

lemma uncurry_size:
  assumes "(func, args) = uncurry f a"
  shows "size func \<le> size f + size a" and "x \<in> set args \<Longrightarrow> size x \<le> size f + size a"
  using uncurry_loop_size [of f "[a]" func args] assms
  by (auto simp: uncurry_def)

text \<open>\<open>_nn\<close> (lines 217-236) and \<open>_clean_drs\<close> (lines 212-215).\<close>

function nn :: "expr \<Rightarrow> error + expr" where
  "nn (DRS refs conds) = bindE (mapE nn conds) (\<lambda>conds. Inr (DRS refs conds))"
| "nn (DrtNegatedExpression t) = bindE (nn t) (\<lambda>t. Inr (DrtNegatedExpression t))"
| "nn (DrtLambdaExpression v t) = bindE (nn t) (\<lambda>t. Inr (DrtLambdaExpression v t))"
| "nn (BinaryExpression cls first second) =
     bindE (nn first) (\<lambda>first.
     bindE (nn second) (\<lambda>second. Inr (BinaryExpression cls first second)))"
| "nn (DrtApplicationExpression function argument) =
     (let (func, args) = uncurry function argument in
      bindE (variable_name func) (\<lambda>nm.
        if nm = ''r_nn_2'' then
          (if length args = 2
           then Inr (BinaryExpression DrtEqualityExpression (args ! 0) (args ! 1))
           else Inl AssertionError)
        else
          bindE (nn func) (\<lambda>accum.
          forE (\<lambda>accum arg. bindE (nn arg) (\<lambda>arg. Inr (DrtApplicationExpression accum arg)))
            accum args)))"
| "nn (DrtVariableExpression v) = Inr (DrtVariableExpression v)"
  by pat_completeness auto
termination
  by (relation "measure size")
     (auto simp: less_Suc_eq_le size_list_estimation' dest: uncurry_size)

definition clean_drs :: "expr \<Rightarrow> error + expr" where
  "clean_drs drs = nn drs"

section \<open>The discourse demultiplexer\<close>

text \<open>
  Modelled from the spec: the tokenizer (\<open>process\<close> of the parser base class, not
  among the sources). Punctuation \<open>( ) [ ] , :\<close> is a token of its own, white space
  separates tokens, a quoted atom is the text between two \<open>'\<close> with \<open>\\<close> as the
  escape character (kept as it is), and an open quote at the end of the input is an error.
\<close>

datatype scan_mode = Plain | Quoted | Escaped

definition flush :: "string \<Rightarrow> tokens" where
  "flush cur = (if cur = [] then [] else [rev cur])"

fun scan :: "scan_mode \<Rightarrow> string \<Rightarrow> string \<Rightarrow> error + tokens" where
  "scan Plain cur [] = Inr (flush cur)"
| "scan Quoted cur [] = Inl TokenizationError"
| "scan Escaped cur [] = Inl TokenizationError"
| "scan Plain cur (c # cs) =
     (if c \<in> set ''()[],:'' then bindE (scan Plain [] cs) (\<lambda>ts. Inr (flush cur @ [c] # ts))
      else if isspace c then bindE (scan Plain [] cs) (\<lambda>ts. Inr (flush cur @ ts))
      else if c = CHR 0x27 then bindE (scan Quoted [] cs) (\<lambda>ts. Inr (flush cur @ ts))
      else scan Plain (c # cur) cs)"
| "scan Quoted cur (c # cs) =
     (if c = CHR 0x27 then bindE (scan Plain [] cs) (\<lambda>ts. Inr (rev cur # ts))
      else if c = CHR 0x5C then scan Escaped (c # cur) cs
      else scan Quoted (c # cur) cs)"
| "scan Escaped cur (c # cs) = scan Quoted (c # cur) cs"

definition process :: "string \<Rightarrow> error + tokens" where
  "process data = scan Plain [] data"

text \<open>
  Modelled from the spec: \<open>parse\<close> of the parser base class tokenizes the text and
  parses one term from the front of the token stream. The fuel is one more than the
  number of tokens, which is enough (\<open>parse_fuel_enough\<close> below).
\<close>

definition parse :: "BoxerDrsParser \<Rightarrow> string \<Rightarrow> error + expr" where
  "parse self data =
     bindE (process data) (\<lambda>toks.
     bindE (parse_Expression self (Suc (length toks)) toks) (\<lambda>(e, toks). Inr e))"

text \<open>\<open>xs[i]\<close> for a non-negative \<open>i\<close>.\<close>

definition getitem :: "'a list \<Rightarrow> nat \<Rightarrow> error + 'a" where
  "getitem xs i = (if i < length xs then Inr (xs ! i) else Inl IndexError)"

text \<open>
  \<open>_parse_to_drs_dict\<close> (lines 188-210). Of the body of its loop,
  \<open>marker_discourse_id\<close> is lines 195-198 (the discourse identifier of a marker line)
  and \<open>locate_drs_input\<close> is lines 199-204 (the text of the term, from the lines at
  the offsets 4 and 8).
\<close>

definition marker_discourse_id :: "string \<Rightarrow> error + string" where
  "marker_discourse_id line =
     bindE (index line (CHR '','')) (\<lambda>comma_idx.
     let discourse_id = slice line 3 comma_idx in
     bindE (getitem discourse_id 0) (\<lambda>c0.
       if c0 = CHR 0x27 \<and> last discourse_id = CHR 0x27
       then Inr (slice discourse_id 1 (length discourse_id - 1))
       else Inr discourse_id))"

definition locate_drs_input :: "string list \<Rightarrow> nat \<Rightarrow> string \<Rightarrow> error + string" where
  "locate_drs_input lines i line =
     bindE (index line (CHR '','')) (\<lambda>comma_idx.
     bindE (index line (CHR '')'')) (\<lambda>paren_idx.
     let drs_id = slice line (comma_idx + 1) paren_idx in
     bindE (getitem lines (i + 4)) (\<lambda>line.
     bindE (if startswith line (''sem('' @ drs_id @ '','') then Inr () else Inl AssertionError)
       (\<lambda>_.
     bindE (getitem lines (i + 8)) (\<lambda>line.
     bindE (if endswith line '').'' then Inr () else Inl AssertionError) (\<lambda>_.
       Inr (strip (take (length line - 2) line))))))))"

text \<open>
  The \<open>while\<close> loop, on the index \<open>i\<close> and the dictionary. The normalisation
  \<open>simplify\<close> of the library (\<open>nltk.sem.drt\<close>, not among the sources) is the
  parameter \<open>simplify\<close>.
\<close>

function parse_to_drs_dict_loop ::
  "(expr \<Rightarrow> error + expr) \<Rightarrow> bool \<Rightarrow> bool \<Rightarrow> string list \<Rightarrow> nat \<Rightarrow> (string \<rightharpoonup> expr)
     \<Rightarrow> error + (string \<rightharpoonup> expr)" where
  "parse_to_drs_dict_loop simplify occur_index' use_disc_id lines i drs_dict =
     (if i < length lines then
        (let line = lines ! i in
         if startswith line ''id('' then
           bindE (marker_discourse_id line) (\<lambda>discourse_id.
           bindE (locate_drs_input lines i line) (\<lambda>drs_input.
           bindE (parse \<lparr>occur_index = occur_index',
                          discourse_id = (if use_disc_id then Some discourse_id else None)\<rparr>
                    drs_input) (\<lambda>drs.
           bindE (simplify drs) (\<lambda>drs.
           bindE (clean_drs drs) (\<lambda>drs.
             parse_to_drs_dict_loop simplify occur_index' use_disc_id lines (i + 8 + 1)
               (drs_dict(discourse_id \<mapsto> drs)))))))
         else parse_to_drs_dict_loop simplify occur_index' use_disc_id lines (i + 1) drs_dict)
      else Inr drs_dict)"
  by pat_completeness auto
termination
  by (relation "measure (\<lambda>(simplify, occur_index', use_disc_id, lines, i, drs_dict).
                  length lines - i)") auto

declare parse_to_drs_dict_loop.simps [simp del]

definition parse_to_drs_dict ::
  "(expr \<Rightarrow> error + expr) \<Rightarrow> string \<Rightarrow> bool \<Rightarrow> bool \<Rightarrow> error + (string \<rightharpoonup> expr)" where
  "parse_to_drs_dict simplify boxer_out occur_index' use_disc_id =
     (let lines = split boxer_out (CHR 0x0A) in
      parse_to_drs_dict_loop simplify occur_index' use_disc_id lines 0 Map.empty)"

text \<open>
  \<open>batch_interpret_multisentence\<close> (lines 81-109). The two external programs are not
  modelled: \<open>boxer_out\<close> is what the second one printed for the batch. An element of
  \<open>discourse_ids\<close> may be \<open>None\<close>, which fails the assertion of line 94.
\<close>

definition batch_interpret_multisentence ::
  "(expr \<Rightarrow> error + expr) \<Rightarrow> string \<Rightarrow> string list list \<Rightarrow> bool \<Rightarrow> string option list option
     \<Rightarrow> error + expr option list" where
  "batch_interpret_multisentence simplify boxer_out inputs occur_index' discourse_ids =
     bindE (case discourse_ids of
              Some ids \<Rightarrow>
                if length inputs \<noteq> length ids then Inl AssertionError
                else if \<not> list_all (\<lambda>id. id \<noteq> None) ids then Inl AssertionError
                else Inr (map the ids, True)
            | None \<Rightarrow> Inr (map (\<lambda>k. str_int (int k)) [0..<length inputs], False))
       (\<lambda>(discourse_ids, use_disc_id).
     bindE (parse_to_drs_dict simplify boxer_out occur_index' use_disc_id) (\<lambda>drs_dict.
       Inr (map (\<lambda>id. drs_dict id) discourse_ids)))"

section \<open>Atoms in a tree\<close>

text \<open>
  An Atom of the spec's data model is an application chain: a predicate variable applied
  to argument variables in order. \<open>atoms_all P e\<close> says that every application in the
  tree \<open>e\<close> is such an Atom and that \<open>P\<close> holds of its predicate name and its number
  of arguments.
\<close>

definition is_variable_expression :: "expr \<Rightarrow> bool" where
  "is_variable_expression e = (case e of DrtVariableExpression v \<Rightarrow> True | _ \<Rightarrow> False)"

fun atoms_all :: "(string \<Rightarrow> nat \<Rightarrow> bool) \<Rightarrow> expr \<Rightarrow> bool" where
  "atoms_all P (DRS refs conds) = list_all (atoms_all P) conds"
| "atoms_all P (DrtNegatedExpression t) = atoms_all P t"
| "atoms_all P (DrtLambdaExpression v t) = atoms_all P t"
| "atoms_all P (BinaryExpression cls first second) = (atoms_all P first \<and> atoms_all P second)"
| "atoms_all P (DrtApplicationExpression f a) =
     (case uncurry f a of
        (DrtVariableExpression p, args) \<Rightarrow>
          P (name p) (length args) \<and> list_all is_variable_expression args
      | _ \<Rightarrow> False)"
| "atoms_all P (DrtVariableExpression v) = True"

declare atoms_all.simps(5) [simp del]

text \<open>The arity that a predicate name encodes: its last character, a decimal digit.\<close>

definition name_arity :: "string \<Rightarrow> nat option" where
  "name_arity nm = (if nm \<noteq> [] \<and> isdigit (last nm) then Some (digit_val (last nm)) else None)"

definition arity_matches :: "string \<Rightarrow> nat \<Rightarrow> bool" where
  "arity_matches nm k = (name_arity nm = Some k)"

text \<open>
  The two conditions on an Atom that the compound-noun pass is about: an Atom named
  \<open>r_nn_2\<close> has two arguments; an Atom is not named \<open>r_nn_2\<close>.
\<close>

definition binary_if_nn :: "string \<Rightarrow> nat \<Rightarrow> bool" where
  "binary_if_nn p k = (p = ''r_nn_2'' \<longrightarrow> k = 2)"

definition not_nn :: "string \<Rightarrow> nat \<Rightarrow> bool" where
  "not_nn p k = (p \<noteq> ''r_nn_2'')"

text \<open>
  The compound-noun folding in the words of the spec: a binary Atom whose predicate name
  is \<open>r_nn_2\<close> becomes the Equality of its two arguments, the rewrite goes into the
  conditions of a box, the body of a negation or a binder and both operands of a
  connective, and nothing else changes.
\<close>

fun spec_compound_noun_folding :: "expr \<Rightarrow> expr" where
  "spec_compound_noun_folding (DRS refs conds) = DRS refs (map spec_compound_noun_folding conds)"
| "spec_compound_noun_folding (DrtNegatedExpression t) =
     DrtNegatedExpression (spec_compound_noun_folding t)"
| "spec_compound_noun_folding (DrtLambdaExpression v t) =
     DrtLambdaExpression v (spec_compound_noun_folding t)"
| "spec_compound_noun_folding (BinaryExpression cls first second) =
     BinaryExpression cls (spec_compound_noun_folding first) (spec_compound_noun_folding second)"
| "spec_compound_noun_folding
     (DrtApplicationExpression (DrtApplicationExpression (DrtVariableExpression p) x) y) =
     (if name p = ''r_nn_2'' then BinaryExpression DrtEqualityExpression x y
      else DrtApplicationExpression (DrtApplicationExpression (DrtVariableExpression p) x) y)"
| "spec_compound_noun_folding e = e"

section \<open>Properties\<close>

subsection \<open>Rules for the error monad and the token stream\<close>

lemma startswith_append [simp]: "startswith (p @ s) p"
  by (simp add: startswith_def)

lemma bindE_Inr [simp]: "bindE (Inr x) f = f x"
  by (simp add: bindE_def)

lemma bindE_Inl [simp]: "bindE (Inl e) f = Inl e"
  by (simp add: bindE_def)

lemma bindE_eq_Inr: "bindE m f = Inr y \<longleftrightarrow> (\<exists>x. m = Inr x \<and> f x = Inr y)"
  by (cases m) simp_all

lemma token_Cons [simp]: "token (t # ts) = Inr (t, ts)"
  by (simp add: token_def)

lemma token_Nil [simp]: "token [] = Inl ExpectedMoreTokensException"
  by (simp add: token_def)

lemma token0_Cons [simp]: "token0 (t # ts) = Inr t"
  by (simp add: token0_def)

lemma token0_Nil [simp]: "token0 [] = Inl ExpectedMoreTokensException"
  by (simp add: token0_def)

lemma expect_Cons [simp]:
  "expect e (t # ts) = (if t \<noteq> e then Inl (UnexpectedTokenException t (Some e)) else Inr ts)"
  by (simp add: expect_def assertToken_def)

lemma expect_Nil [simp]: "expect e [] = Inl ExpectedMoreTokensException"
  by (simp add: expect_def)

lemmas str_eval = str_int_def str_nat.simps digit_char_def

lemma expect_eq_Inr [simp]: "expect e toks = Inr r \<longleftrightarrow> toks = e # r"
  by (cases toks) auto

lemma token_eq_Inr [simp]: "token toks = Inr (t, r) \<longleftrightarrow> toks = t # r"
  by (cases toks) auto

lemma str_int_1 [simp]: "str_int 1 = ''1''"
  by (simp add: str_eval)

lemma str_int_2 [simp]: "str_int 2 = ''2''"
  by (simp add: str_eval)

lemma whq_atoms_eq:
  "whq_atoms self (DrtVariableExpression v) ans_types =
     Inr (map (\<lambda>t. DrtApplicationExpression
                      (DrtVariableExpression (Variable (''r_'' @ t @ ''_1'')))
                      (DrtVariableExpression v)) ans_types)"
  by (induction ans_types)
     (simp_all add: make_atom_def as_variable_expression_def make_pred_def make_Variable_def
        startswith_def split: option.splits)

lemma make_atom_1 [simp]:
  "make_atom (Str p) [Str a] =
     Inr (DrtApplicationExpression (DrtVariableExpression (make_Variable p))
            (DrtVariableExpression (make_Variable a)))"
  by (simp add: make_atom_def as_variable_expression_def)

lemma make_atom_2 [simp]:
  "make_atom (Str p) [Str a, Str b] =
     Inr (DrtApplicationExpression
            (DrtApplicationExpression (DrtVariableExpression (make_Variable p))
               (DrtVariableExpression (make_Variable a)))
            (DrtVariableExpression (make_Variable b)))"
  by (simp add: make_atom_def as_variable_expression_def)

lemma make_atom_3 [simp]:
  "make_atom (Str p) [Str a, Str b, Str c] =
     Inr (DrtApplicationExpression
            (DrtApplicationExpression
               (DrtApplicationExpression (DrtVariableExpression (make_Variable p))
                  (DrtVariableExpression (make_Variable a)))
               (DrtVariableExpression (make_Variable b)))
            (DrtVariableExpression (make_Variable c)))"
  by (simp add: make_atom_def as_variable_expression_def)

lemma atoms_all_atom1 [simp]:
  "atoms_all P (DrtApplicationExpression (DrtVariableExpression p) (DrtVariableExpression a))
     = P (name p) 1"
  by (simp add: atoms_all.simps(5) uncurry_def is_variable_expression_def)

lemma atoms_all_atom2 [simp]:
  "atoms_all P (DrtApplicationExpression
     (DrtApplicationExpression (DrtVariableExpression p) (DrtVariableExpression a))
     (DrtVariableExpression b)) = P (name p) 2"
  by (simp add: atoms_all.simps(5) uncurry_def is_variable_expression_def eval_nat_numeral)

lemma atoms_all_atom3 [simp]:
  "atoms_all P (DrtApplicationExpression
     (DrtApplicationExpression
        (DrtApplicationExpression (DrtVariableExpression p) (DrtVariableExpression a))
        (DrtVariableExpression b))
     (DrtVariableExpression c)) = P (name p) 3"
  by (simp add: atoms_all.simps(5) uncurry_def is_variable_expression_def eval_nat_numeral)

subsection \<open>The fuel of the parser is enough\<close>

text \<open>
  Every production consumes tokens, and none of the functions that take no fuel fails for
  lack of it. Hence \<open>parse_Expression\<close> with more fuel than there are tokens never
  stops for lack of fuel, and \<open>parse\<close>, which gives it one unit more than the number
  of tokens, computes what the unbounded recursion of the source computes.
\<close>

lemma bindE_out_of_fuel:
  "bindE m f = Inl OutOfFuel \<longleftrightarrow> m = Inl OutOfFuel \<or> (\<exists>x. m = Inr x \<and> f x = Inl OutOfFuel)"
  by (cases m) simp_all

lemma token_fuel [simp]: "token toks \<noteq> Inl OutOfFuel"
  by (cases toks) simp_all

lemma token0_fuel [simp]: "token0 toks \<noteq> Inl OutOfFuel"
  by (cases toks) simp_all

lemma expect_fuel [simp]: "expect e toks \<noteq> Inl OutOfFuel"
  by (cases toks) simp_all

lemma py_int_fuel [simp]: "py_int s \<noteq> Inl OutOfFuel"
  by (simp add: py_int_def split: prod.splits)

lemma token0_eq_Inr: "token0 toks = Inr t \<longleftrightarrow> (\<exists>ts. toks = t # ts)"
  by (cases toks) auto

lemma parse_index_loop_fuel [simp]: "parse_index_loop toks acc \<noteq> Inl OutOfFuel"
proof (induction "length toks" arbitrary: toks acc rule: less_induct)
  case less
  show ?case
    by (subst parse_index_loop.simps)
       (auto simp: bindE_out_of_fuel token0_eq_Inr less)
qed

lemma parse_index_list_fuel [simp]: "parse_index_list toks \<noteq> Inl OutOfFuel"
  by (auto simp: parse_index_list_def bindE_out_of_fuel)

lemma parse_drs_refs_fuel [simp]: "parse_drs_refs toks refs \<noteq> Inl OutOfFuel"
proof (induction "length toks" arbitrary: toks refs rule: less_induct)
  case less
  show ?case
    by (subst parse_drs_refs.simps)
       (auto simp: bindE_out_of_fuel token0_eq_Inr dest!: parse_index_list_length intro!: less)
qed

lemma whq_ans_types_fuel [simp]: "whq_ans_types toks acc \<noteq> Inl OutOfFuel"
proof (induction "length toks" arbitrary: toks acc rule: less_induct)
  case less
  show ?case
    by (subst whq_ans_types.simps)
       (auto simp: bindE_out_of_fuel token0_eq_Inr intro!: less)
qed

lemma parse_drs_refs_length:
  "parse_drs_refs toks refs = Inr (rs, r) \<Longrightarrow> length r \<le> length toks"
proof (induction "length toks" arbitrary: toks refs rule: less_induct)
  case less
  from less.prems show ?case
    by (subst (asm) parse_drs_refs.simps)
       (auto simp: bindE_eq_Inr token0_eq_Inr split: if_splits
             dest!: parse_index_list_length less.hyps [rotated])
qed

lemma whq_ans_types_length:
  "whq_ans_types toks acc = Inr (ts, r) \<Longrightarrow> length r \<le> length toks"
proof (induction "length toks" arbitrary: toks acc rule: less_induct)
  case less
  from less.prems show ?case
    by (subst (asm) whq_ans_types.simps)
       (auto simp: bindE_eq_Inr token0_eq_Inr split: if_splits
             dest!: less.hyps [rotated])
qed

lemma handlers_fuel [simp]:
  "handle_pred self indices toks \<noteq> Inl OutOfFuel"
  "handle_named self indices toks \<noteq> Inl OutOfFuel"
  "handle_rel self indices toks \<noteq> Inl OutOfFuel"
  "handle_card self indices toks \<noteq> Inl OutOfFuel"
  "handle_eq self indices toks \<noteq> Inl OutOfFuel"
  by (auto simp: handle_pred_def handle_named_def handle_rel_def handle_card_def handle_eq_def
        bindE_out_of_fuel Let_def)

lemma handle_date_fuel [simp]: "handle_date arg toks \<noteq> Inl OutOfFuel"
  by (auto simp: handle_date_def bindE_out_of_fuel Let_def)

lemma handle_time_fuel [simp]: "handle_time arg toks \<noteq> Inl OutOfFuel"
  by (auto simp: handle_time_def bindE_out_of_fuel Let_def)

lemma handle_timex_fuel [simp]: "handle_timex self indices toks \<noteq> Inl OutOfFuel"
  by (auto simp: handle_timex_def handle_time_expression_def time_expression_conds_def bindE_out_of_fuel Let_def)

lemma handlers_length:
  "handle_pred self indices toks = Inr (e, r) \<Longrightarrow> length r < length toks"
  "handle_named self indices toks = Inr (e, r) \<Longrightarrow> length r < length toks"
  "handle_rel self indices toks = Inr (e, r) \<Longrightarrow> length r < length toks"
  "handle_card self indices toks = Inr (e, r) \<Longrightarrow> length r < length toks"
  "handle_eq self indices toks = Inr (e, r) \<Longrightarrow> length r < length toks"
  by (auto simp: handle_pred_def handle_named_def handle_rel_def handle_card_def handle_eq_def
        bindE_eq_Inr Let_def)

lemma handle_date_length:
  "handle_date arg toks = Inr (cs, r) \<Longrightarrow> length r < length toks"
  by (auto simp: handle_date_def bindE_eq_Inr Let_def split: if_splits
           dest!: parse_index_list_length)

lemma handle_time_length:
  "handle_time arg toks = Inr (cs, r) \<Longrightarrow> length r < length toks"
  by (auto simp: handle_time_def bindE_eq_Inr Let_def split: if_splits
           dest!: parse_index_list_length)

lemma handle_timex_length:
  "handle_timex self indices toks = Inr (cs, r) \<Longrightarrow> length r < length toks"
  by (auto simp: handle_timex_def handle_time_expression_def time_expression_conds_def bindE_eq_Inr split: if_splits
           dest!: handle_date_length handle_time_length)

lemma head_dispatch_Inr:
  "bindE (token toks) (\<lambda>(tok, ts). bindE (H tok ts) (\<lambda>(accum, ts).
      case accum of None \<Rightarrow> Inl (E tok) | Some x \<Rightarrow> Inr (x, ts))) = Inr (e, r)
   \<longleftrightarrow> (\<exists>tok ts. toks = tok # ts \<and> H tok ts = Inr (Some e, r))"
proof (cases toks)
  case Nil
  then show ?thesis by simp
next
  case (Cons tok ts)
  then show ?thesis
    by (cases "H tok ts") (auto split: option.splits)
qed

lemma head_dispatch_fuel:
  "bindE (token toks) (\<lambda>(tok, ts). bindE (H tok ts) (\<lambda>(accum, ts).
      case accum of None \<Rightarrow> Inl (UnexpectedTokenException tok None) | Some x \<Rightarrow> Inr (x, ts)))
     = Inl OutOfFuel
   \<longleftrightarrow> (\<exists>tok ts. toks = tok # ts \<and> H tok ts = Inl OutOfFuel)"
proof (cases toks)
  case Nil
  then show ?thesis by simp
next
  case (Cons tok ts)
  then show ?thesis
    by (cases "H tok ts") (auto split: option.splits)
qed

lemma make_binary_expression_length:
  assumes len: "\<forall>ts e r. pe ts = Inr (e, r) \<longrightarrow> length r < length ts"
  shows "make_binary_expression pe cls toks = Inr (e, r) \<Longrightarrow> length r < length toks"
  by (auto simp: make_binary_expression_def bindE_eq_Inr dest!: len [rule_format])

lemma handle_prop_length:
  assumes len: "\<forall>ts e r. pe ts = Inr (e, r) \<longrightarrow> length r < length ts"
  shows "handle_prop pe indices toks = Inr (e, r) \<Longrightarrow> length r < length toks"
  by (auto simp: handle_prop_def bindE_eq_Inr dest!: len [rule_format])

lemma handle_whq_length:
  assumes len: "\<forall>ts e r. pe ts = Inr (e, r) \<longrightarrow> length r < length ts"
  shows "handle_whq self pe indices toks = Inr (e, r) \<Longrightarrow> length r < length toks"
  by (auto simp: handle_whq_def bindE_eq_Inr Let_def
           dest!: len [rule_format] whq_ans_types_length)

lemma handle_condition_length:
  assumes len: "\<forall>ts e r. pe ts = Inr (e, r) \<longrightarrow> length r < length ts"
  shows "handle_condition self pe tok indices toks = Inr (cs, r) \<Longrightarrow> length r \<le> length toks"
  by (auto simp: handle_condition_def bindE_eq_Inr split: if_splits
           dest!: len [rule_format] handlers_length handle_timex_length
                  make_binary_expression_length [OF len] handle_prop_length [OF len]
                  handle_whq_length [OF len])

lemma parse_condition_length:
  assumes len: "\<forall>ts e r. pe ts = Inr (e, r) \<longrightarrow> length r < length ts"
  shows "parse_condition self pe indices toks = Inr (cs, r) \<Longrightarrow> length r < length toks"
  by (auto simp: parse_condition_def head_dispatch_Inr dest!: handle_condition_length [OF len])

lemma parse_drs_conds_length:
  assumes len: "\<forall>ts e r. pe ts = Inr (e, r) \<longrightarrow> length r < length ts"
  shows "parse_drs_conds self pe n toks conds = Inr (cs, r) \<Longrightarrow> length r \<le> length toks"
proof (induction n arbitrary: toks conds)
  case 0
  then show ?case by (auto simp: bindE_eq_Inr split: if_splits)
next
  case (Suc n)
  from Suc.prems show ?case
    by (auto simp: bindE_eq_Inr token0_eq_Inr split: if_splits
             dest!: parse_index_list_length parse_condition_length [OF len] Suc.IH)
qed

lemma parse_drs_length:
  assumes len: "\<forall>ts e r. pe ts = Inr (e, r) \<longrightarrow> length r < length ts"
  shows "parse_drs self pe n toks = Inr (e, r) \<Longrightarrow> length r < length toks"
  by (auto simp: parse_drs_def bindE_eq_Inr
           dest!: parse_drs_refs_length parse_drs_conds_length [OF len])

lemma handle_drs_length:
  assumes len: "\<forall>ts e r. pe ts = Inr (e, r) \<longrightarrow> length r < length ts"
  shows "handle_drs self pe n tok toks = Inr (x, r) \<Longrightarrow> length r \<le> length toks"
  by (auto simp: handle_drs_def bindE_eq_Inr split: if_splits
           dest!: parse_drs_length [OF len] make_binary_expression_length [OF len])

lemma parse_Expression_length:
  "\<forall>toks e r. parse_Expression self n toks = Inr (e, r) \<longrightarrow> length r < length toks"
proof (induction n)
  case 0
  then show ?case by simp
next
  case (Suc n)
  show ?case
    by (auto simp: head_dispatch_Inr dest!: handle_drs_length [OF Suc.IH])
qed

lemma fuelD:
  "\<forall>ts. length ts < N \<longrightarrow> pe ts \<noteq> Inl OutOfFuel \<Longrightarrow> pe ts = Inl OutOfFuel \<Longrightarrow> N \<le> length ts"
  by (meson not_le)

lemma make_binary_expression_fuel:
  assumes len: "\<forall>ts e r. pe ts = Inr (e, r) \<longrightarrow> length r < length ts"
    and fuel: "\<forall>ts. length ts < N \<longrightarrow> pe ts \<noteq> Inl OutOfFuel"
  shows "length toks \<le> N \<Longrightarrow> make_binary_expression pe cls toks \<noteq> Inl OutOfFuel"
  by (auto simp: make_binary_expression_def bindE_out_of_fuel
           dest!: len [rule_format] fuelD [OF fuel])

lemma handle_prop_fuel:
  assumes len: "\<forall>ts e r. pe ts = Inr (e, r) \<longrightarrow> length r < length ts"
    and fuel: "\<forall>ts. length ts < N \<longrightarrow> pe ts \<noteq> Inl OutOfFuel"
  shows "length toks \<le> N \<Longrightarrow> handle_prop pe indices toks \<noteq> Inl OutOfFuel"
  by (auto simp: handle_prop_def bindE_out_of_fuel
           dest!: len [rule_format] fuelD [OF fuel])

lemma whq_atoms_fuel [simp]:
  "whq_atoms self (DrtVariableExpression v) ans_types \<noteq> Inl OutOfFuel"
  by (simp add: whq_atoms_eq)

lemma handle_whq_fuel:
  assumes len: "\<forall>ts e r. pe ts = Inr (e, r) \<longrightarrow> length r < length ts"
    and fuel: "\<forall>ts. length ts < N \<longrightarrow> pe ts \<noteq> Inl OutOfFuel"
  shows "length toks \<le> N \<Longrightarrow> handle_whq self pe indices toks \<noteq> Inl OutOfFuel"
  by (auto simp: handle_whq_def bindE_out_of_fuel Let_def
           dest!: len [rule_format] fuelD [OF fuel] whq_ans_types_length)

lemma wrap_fuel:
  "bindE m (\<lambda>(e, ts). Inr (f e ts)) = Inl OutOfFuel \<longleftrightarrow> m = Inl OutOfFuel"
  by (cases m) (simp_all split: prod.splits)

lemma handle_condition_fuel:
  assumes len: "\<forall>ts e r. pe ts = Inr (e, r) \<longrightarrow> length r < length ts"
    and fuel: "\<forall>ts. length ts < N \<longrightarrow> pe ts \<noteq> Inl OutOfFuel"
    and l: "length toks \<le> N"
  shows "handle_condition self pe tok indices toks \<noteq> Inl OutOfFuel"
proof -
  have neg: "bindE (expect ''('' toks) (\<lambda>toks.
               bindE (pe toks) (\<lambda>(e, toks).
               bindE (expect '')'' toks) (\<lambda>toks.
                 Inr (Some [DrtNegatedExpression e], toks)))) \<noteq> Inl OutOfFuel"
    using l by (auto simp: bindE_out_of_fuel dest!: fuelD [OF fuel])
  note rec = make_binary_expression_fuel [OF len fuel l] handle_prop_fuel [OF len fuel l]
    handle_whq_fuel [OF len fuel l]
  show ?thesis
    unfolding handle_condition_def
    by (simp only: wrap_fuel neg rec handlers_fuel handle_timex_fuel if_False if_True
          split: if_split) simp
qed

lemma parse_condition_fuel:
  assumes len: "\<forall>ts e r. pe ts = Inr (e, r) \<longrightarrow> length r < length ts"
    and fuel: "\<forall>ts. length ts < N \<longrightarrow> pe ts \<noteq> Inl OutOfFuel"
  shows "length toks \<le> N \<Longrightarrow> parse_condition self pe indices toks \<noteq> Inl OutOfFuel"
proof
  assume l: "length toks \<le> N"
  assume "parse_condition self pe indices toks = Inl OutOfFuel"
  then obtain tok ts where "toks = tok # ts"
    "handle_condition self pe tok indices ts = Inl OutOfFuel"
    by (auto simp: parse_condition_def head_dispatch_fuel)
  with handle_condition_fuel [OF len fuel, of ts self tok indices] l show False
    by simp
qed

lemma parse_drs_conds_fuel:
  assumes len: "\<forall>ts e r. pe ts = Inr (e, r) \<longrightarrow> length r < length ts"
    and fuel: "\<forall>ts. length ts < N \<longrightarrow> pe ts \<noteq> Inl OutOfFuel"
  shows "length toks \<le> N \<Longrightarrow> length toks \<le> n \<Longrightarrow>
           parse_drs_conds self pe n toks conds \<noteq> Inl OutOfFuel"
proof (induction n arbitrary: toks conds)
  case 0
  then show ?case by simp
next
  case (Suc n)
  show ?case
  proof
    assume out: "parse_drs_conds self pe (Suc n) toks conds = Inl OutOfFuel"
    then obtain t0 where t0: "token0 toks = Inr t0" "t0 \<noteq> '']''"
      by (auto simp: bindE_out_of_fuel split: if_splits)
    with out obtain ixs ts1 where ix: "parse_index_list toks = Inr (ixs, ts1)"
      by (auto simp: bindE_out_of_fuel)
    then have l1: "length ts1 < length toks" by (rule parse_index_list_length)
    with Suc.prems have "length ts1 \<le> N" by simp
    from parse_condition_fuel [OF len fuel this, of self ixs] out t0 ix
    obtain cs ts2 where c: "parse_condition self pe ixs ts1 = Inr (cs, ts2)"
      by (auto simp: bindE_out_of_fuel)
    then have l2: "length ts2 < length ts1"
      by (rule parse_condition_length [OF len])
    from out t0 ix c have
      "parse_drs_conds self pe n ts2 (conds @ cs) = Inl OutOfFuel
       \<or> parse_drs_conds self pe n (tl ts2) (conds @ cs) = Inl OutOfFuel"
      by (auto simp: bindE_out_of_fuel split: if_splits)
    moreover from l1 l2 Suc.prems have "length ts2 \<le> N" "length ts2 \<le> n"
      "length (tl ts2) \<le> N" "length (tl ts2) \<le> n"
      by simp_all
    ultimately show False
      using Suc.IH by blast
  qed
qed

lemma parse_drs_fuel:
  assumes len: "\<forall>ts e r. pe ts = Inr (e, r) \<longrightarrow> length r < length ts"
    and fuel: "\<forall>ts. length ts < N \<longrightarrow> pe ts \<noteq> Inl OutOfFuel"
  shows "length toks \<le> N \<Longrightarrow> length toks \<le> n \<Longrightarrow> parse_drs self pe n toks \<noteq> Inl OutOfFuel"
proof
  assume b: "length toks \<le> N" "length toks \<le> n"
  assume "parse_drs self pe n toks = Inl OutOfFuel"
  then obtain ts1 refs ts2 t ts3 where
    "toks = ''('' # ''['' # ts1" "parse_drs_refs ts1 [] = Inr (refs, ts2)"
    "ts2 = t # '','' # ''['' # ts3" "parse_drs_conds self pe n ts3 [] = Inl OutOfFuel"
    by (auto simp: parse_drs_def bindE_out_of_fuel)
  moreover from this have "length ts3 < length toks"
    by (auto dest!: parse_drs_refs_length)
  ultimately show False
    using parse_drs_conds_fuel [OF len fuel, of ts3 n self "[]"] b by simp
qed

lemma handle_drs_fuel:
  assumes len: "\<forall>ts e r. pe ts = Inr (e, r) \<longrightarrow> length r < length ts"
    and fuel: "\<forall>ts. length ts < N \<longrightarrow> pe ts \<noteq> Inl OutOfFuel"
  shows "length toks \<le> N \<Longrightarrow> length toks \<le> n \<Longrightarrow>
           handle_drs self pe n tok toks \<noteq> Inl OutOfFuel"
  using make_binary_expression_fuel [OF len fuel, of toks ConcatenationDRS]
        parse_drs_fuel [OF len fuel, of toks n self]
  by (auto simp: handle_drs_def bindE_out_of_fuel)

lemma parse_Expression_fuel:
  "\<forall>toks. length toks < n \<longrightarrow> parse_Expression self n toks \<noteq> Inl OutOfFuel"
proof (induction n)
  case 0
  then show ?case by simp
next
  case (Suc n)
  show ?case
  proof (intro allI impI)
    fix toks :: tokens
    assume l: "length toks < Suc n"
    show "parse_Expression self (Suc n) toks \<noteq> Inl OutOfFuel"
    proof (cases toks)
      case Nil
      then show ?thesis by simp
    next
      case (Cons tok ts)
      with l have "length ts \<le> n" by simp
      note h = handle_drs_fuel [OF parse_Expression_length Suc.IH this this, of self tok]
      show ?thesis
      proof
        assume "parse_Expression self (Suc n) toks = Inl OutOfFuel"
        then have "\<exists>tok' ts'. toks = tok' # ts'
            \<and> handle_drs self (parse_Expression self n) n tok' ts' = Inl OutOfFuel"
          by (simp only: parse_Expression.simps head_dispatch_fuel)
        with Cons h show False by simp
      qed
    qed
  qed
qed

lemma scan_fuel [simp]: "scan mode cur data \<noteq> Inl OutOfFuel"
  by (induction mode cur data rule: scan.induct) (auto simp: bindE_out_of_fuel)

lemma parse_fuel_enough: "parse self data \<noteq> Inl OutOfFuel"
proof
  assume "parse self data = Inl OutOfFuel"
  then obtain toks where "parse_Expression self (Suc (length toks)) toks = Inl OutOfFuel"
    by (auto simp: parse_def process_def bindE_out_of_fuel simp del: parse_Expression.simps)
  with parse_Expression_fuel [of "Suc (length toks)" self] show False
    by simp
qed

subsection \<open>The result of a question term (C1)\<close>

text \<open>
  C1 as stated fails on the predicate name: \<open>_handle_whq\<close> passes the empty index list
  to \<open>_make_pred\<close>, which then replaces the part of speech \<open>n\<close> by \<open>r\<close>. For the
  answer type \<open>per\<close> the atom is \<open>r_per_1(x0)\<close>, not \<open>n_per_1(x0)\<close>.
\<close>

theorem whq_answer_type_is_relation_named:
  "handle_whq \<lparr>occur_index = True, discourse_id = Some ''t''\<rparr>
     (parse_Expression \<lparr>occur_index = True, discourse_id = Some ''t''\<rparr> 2) [(0, 0)]
     [''('', ''['', ''des'', '':'', ''per'', '']'', '','',
      ''drs'', ''('', ''['', '']'', '','', ''['', '']'', '')'', '','', ''x0'', '','',
      ''drs'', ''('', ''['', '']'', '','', ''['', '']'', '')'', '')'']
   = Inr (BinaryExpression ConcatenationDRS
            (DRS [] [DrtApplicationExpression (DrtVariableExpression (Variable ''r_per_1''))
                       (DrtVariableExpression (Variable ''x0''))])
            (BinaryExpression ConcatenationDRS (DRS [] []) (DRS [] [])), [])
   \<and> handle_whq \<lparr>occur_index = True, discourse_id = Some ''t''\<rparr>
     (parse_Expression \<lparr>occur_index = True, discourse_id = Some ''t''\<rparr> 2) [(0, 0)]
     [''('', ''['', ''des'', '':'', ''per'', '']'', '','',
      ''drs'', ''('', ''['', '']'', '','', ''['', '']'', '')'', '','', ''x0'', '','',
      ''drs'', ''('', ''['', '']'', '','', ''['', '']'', '')'', '')'']
   \<noteq> Inr (BinaryExpression ConcatenationDRS
            (DRS [] [DrtApplicationExpression (DrtVariableExpression (Variable ''n_per_1''))
                       (DrtVariableExpression (Variable ''x0''))])
            (BinaryExpression ConcatenationDRS (DRS [] []) (DRS [] [])), [])"
  by code_simp

text \<open>
  C1, amended. Every result of \<open>_handle_whq\<close> is
  \<open>ConcatenationDRS(d3, ConcatenationDRS(d1, d2))\<close>, where \<open>d1\<close> and \<open>d2\<close> are the two
  sub-terms parsed and \<open>d3\<close> is a \<open>DRS\<close> with no referent whose conditions are, for
  each answer type of the list in order, the atom \<open>r_<type>_1\<close> applied to the answer
  variable.
\<close>

theorem handle_whq_result:
  assumes "handle_whq self pe indices toks = Inr (e, rest)"
  shows "\<exists>ts ans_types t ts1 d1 tok ts2 d2.
           toks = ''('' # ''['' # ts
         \<and> whq_ans_types ts [] = Inr (ans_types, t # '','' # ts1)
         \<and> pe ts1 = Inr (d1, '','' # tok # '','' # ts2)
         \<and> pe ts2 = Inr (d2, '')'' # rest)
         \<and> e = BinaryExpression ConcatenationDRS
                 (DRS [] (map (\<lambda>f_name. DrtApplicationExpression
                                 (DrtVariableExpression (Variable (''r_'' @ f_name @ ''_1'')))
                                 (DrtVariableExpression (make_Variable tok))) ans_types))
                 (BinaryExpression ConcatenationDRS d1 d2)"
  using assms
  by (auto simp: handle_whq_def bindE_eq_Inr whq_atoms_eq Let_def)

theorem handle_whq_result_witness:
  "handle_whq \<lparr>occur_index = False, discourse_id = None\<rparr>
     (parse_Expression \<lparr>occur_index = False, discourse_id = None\<rparr> 2) []
     [''('', ''['', ''num'', '':'', ''cou'', '']'', '','',
      ''drs'', ''('', ''['', '']'', '','', ''['', '']'', '')'', '','', ''_G1'', '','',
      ''drs'', ''('', ''['', '']'', '','', ''['', '']'', '')'', '')'']
   = Inr (BinaryExpression ConcatenationDRS
            (DRS [] [DrtApplicationExpression (DrtVariableExpression (Variable ''r_number_1''))
                       (DrtVariableExpression (Variable ''z1'')),
                     DrtApplicationExpression (DrtVariableExpression (Variable ''r_count_1''))
                       (DrtVariableExpression (Variable ''z1''))])
            (BinaryExpression ConcatenationDRS (DRS [] []) (DRS [] [])), [])
   \<and> (\<exists>ans_types tok d1 d2.
          BinaryExpression ConcatenationDRS
            (DRS [] [DrtApplicationExpression (DrtVariableExpression (Variable ''r_number_1''))
                       (DrtVariableExpression (Variable ''z1'')),
                     DrtApplicationExpression (DrtVariableExpression (Variable ''r_count_1''))
                       (DrtVariableExpression (Variable ''z1''))])
            (BinaryExpression ConcatenationDRS (DRS [] []) (DRS [] []))
          = BinaryExpression ConcatenationDRS
              (DRS [] (map (\<lambda>f_name. DrtApplicationExpression
                              (DrtVariableExpression (Variable (''r_'' @ f_name @ ''_1'')))
                              (DrtVariableExpression (make_Variable tok))) ans_types))
              (BinaryExpression ConcatenationDRS d1 d2))"
proof -
  have e: "handle_whq \<lparr>occur_index = False, discourse_id = None\<rparr>
     (parse_Expression \<lparr>occur_index = False, discourse_id = None\<rparr> 2) []
     [''('', ''['', ''num'', '':'', ''cou'', '']'', '','',
      ''drs'', ''('', ''['', '']'', '','', ''['', '']'', '')'', '','', ''_G1'', '','',
      ''drs'', ''('', ''['', '']'', '','', ''['', '']'', '')'', '')'']
   = Inr (BinaryExpression ConcatenationDRS
            (DRS [] [DrtApplicationExpression (DrtVariableExpression (Variable ''r_number_1''))
                       (DrtVariableExpression (Variable ''z1'')),
                     DrtApplicationExpression (DrtVariableExpression (Variable ''r_count_1''))
                       (DrtVariableExpression (Variable ''z1''))])
            (BinaryExpression ConcatenationDRS (DRS [] []) (DRS [] [])), [])"
    by code_simp
  have "\<exists>ans_types tok d1 d2.
          BinaryExpression ConcatenationDRS
            (DRS [] [DrtApplicationExpression (DrtVariableExpression (Variable ''r_number_1''))
                       (DrtVariableExpression (Variable ''z1'')),
                     DrtApplicationExpression (DrtVariableExpression (Variable ''r_count_1''))
                       (DrtVariableExpression (Variable ''z1''))])
            (BinaryExpression ConcatenationDRS (DRS [] []) (DRS [] []))
          = BinaryExpression ConcatenationDRS
              (DRS [] (map (\<lambda>f_name. DrtApplicationExpression
                              (DrtVariableExpression (Variable (''r_'' @ f_name @ ''_1'')))
                              (DrtVariableExpression (make_Variable tok))) ans_types))
              (BinaryExpression ConcatenationDRS d1 d2)"
    using handle_whq_result [OF e] by (elim exE conjE) (intro exI, assumption)
  with e show ?thesis by (rule conjI)
qed

subsection \<open>A parse failure inside a batch (C2)\<close>




subsection \<open>The position marker of a predicate name (C3)\<close>

text \<open>
  C3 at the example of the docstring of \<open>BoxerDrsParser\<close> (lines 247-251): the verb
  \<open>see\<close>, fourth word of the third sentence of discourse \<open>t\<close>, has the index 3004.
  The docstring gives the marker \<open>s3_w4\<close>; the code builds the marker from the decoded
  pair, which counts from zero, and gives \<open>s2_w3\<close>: in the predicate of the parsed
  condition, and in the name that \<open>_make_pred\<close> returns for the arity of the docstring.
\<close>

theorem occurrence_marker_counts_from_zero:
  "parse \<lparr>occur_index = True, discourse_id = Some ''t''\<rparr>
     ''drs([],[[3004]:pred(x0,see,v,0)])''
   = Inr (DRS [] [DrtApplicationExpression (DrtVariableExpression (Variable ''v_see_t_s2_w3_1''))
                    (DrtVariableExpression (Variable ''x0''))])
   \<and> parse_index_list [''['', ''3004'', '']'', '':''] = Inr ([(2, 3)], [])
   \<and> make_pred \<lparr>occur_index = True, discourse_id = Some ''t''\<rparr> ''v'' ''see'' [(2, 3)] 2
       = ''v_see_t_s2_w3_2''
   \<and> make_pred \<lparr>occur_index = True, discourse_id = Some ''t''\<rparr> ''v'' ''see'' [(2, 3)] 2
       \<noteq> ''v_see_t_s3_w4_2''"
  by code_simp

subsection \<open>The compound-noun folding (C4)\<close>

lemma uncurry_loop_foldl:
  "uncurry_loop f acc = (h, args) \<Longrightarrow>
     foldl DrtApplicationExpression h args = foldl DrtApplicationExpression f acc"
  by (induction f acc rule: uncurry_loop.induct) auto

lemma uncurry_foldl:
  "uncurry f a = (h, args) \<Longrightarrow>
     foldl DrtApplicationExpression h args = DrtApplicationExpression f a"
  by (drule uncurry_loop_foldl [of f "[a]", unfolded uncurry_def [symmetric]]) simp

lemma mapE_Inr: "(\<And>x. x \<in> set xs \<Longrightarrow> f x = Inr (g x)) \<Longrightarrow> mapE f xs = Inr (map g xs)"
  by (induction xs) simp_all

lemma forE_apply_variables:
  "list_all is_variable_expression args \<Longrightarrow>
     forE (\<lambda>accum arg. bindE (nn arg) (\<lambda>arg. Inr (DrtApplicationExpression accum arg)))
       accum args = Inr (foldl DrtApplicationExpression accum args)"
  by (induction args arbitrary: accum)
     (auto simp: is_variable_expression_def split: expr.splits)

lemma spec_folding_unchanged:
  "(\<And>p x. f = DrtApplicationExpression (DrtVariableExpression p) x \<Longrightarrow> name p \<noteq> ''r_nn_2'')
     \<Longrightarrow> spec_compound_noun_folding (DrtApplicationExpression f a) = DrtApplicationExpression f a"
proof (cases f)
  case (DrtApplicationExpression g x)
  assume "\<And>p x. f = DrtApplicationExpression (DrtVariableExpression p) x \<Longrightarrow> name p \<noteq> ''r_nn_2''"
  with DrtApplicationExpression show ?thesis
    by (cases g) simp_all
qed simp_all

lemma nn_atom:
  assumes u: "uncurry f a = (DrtVariableExpression p, args)"
    and vars: "list_all is_variable_expression args"
    and bin: "binary_if_nn (name p) (length args)"
  shows "nn (DrtApplicationExpression f a)
           = Inr (spec_compound_noun_folding (DrtApplicationExpression f a))
         \<and> atoms_all not_nn (spec_compound_noun_folding (DrtApplicationExpression f a))"
proof (cases "name p = ''r_nn_2''")
  case True
  have chain: "foldl DrtApplicationExpression (DrtVariableExpression p) args
                 = DrtApplicationExpression f a"
    using u by (rule uncurry_foldl)
  from True bin have "length args = 2" by (simp add: binary_if_nn_def)
  then obtain x y where args: "args = [x, y]"
    by (cases args; cases "tl args") auto
  with chain have fa: "f = DrtApplicationExpression (DrtVariableExpression p) x" "a = y"
    by simp_all
  from vars args obtain vx vy where "x = DrtVariableExpression vx" "y = DrtVariableExpression vy"
    by (auto simp: is_variable_expression_def split: expr.splits)
  with True u args fa show ?thesis
    by (simp add: variable_name_def)
next
  case False
  have chain: "foldl DrtApplicationExpression (DrtVariableExpression p) args
                 = DrtApplicationExpression f a"
    using u by (rule uncurry_foldl)
  have same: "spec_compound_noun_folding (DrtApplicationExpression f a)
                = DrtApplicationExpression f a"
  proof (rule spec_folding_unchanged)
    fix q x assume "f = DrtApplicationExpression (DrtVariableExpression q) x"
    with u have "q = p" by (simp add: uncurry_def)
    with False show "name q \<noteq> ''r_nn_2''" by simp
  qed
  from False u vars show ?thesis
    by (simp add: same variable_name_def forE_apply_variables chain atoms_all.simps(5)
          not_nn_def)
qed

text \<open>
  C4 as stated fails for a predicate that ends in \<open>r_nn_2\<close> without being equal to
  it: \<open>rel(x0,x1,r_nn,0)\<close> is parsed to the Atom \<open>r_r_nn_2(x0,x1)\<close>, and \<open>_nn\<close>,
  which compares the name with \<open>r_nn_2\<close> for equality, leaves it in the tree.
\<close>

theorem nn_keeps_name_ending_in_r_nn_2:
  "bindE (parse \<lparr>occur_index = False, discourse_id = None\<rparr>
            ''drs([],[[1001]:rel(x0,x1,r_nn,0)])'') nn
   = Inr (DRS [] [DrtApplicationExpression
                    (DrtApplicationExpression (DrtVariableExpression (Variable ''r_r_nn_2''))
                       (DrtVariableExpression (Variable ''x0'')))
                    (DrtVariableExpression (Variable ''x1''))])
   \<and> endswith ''r_r_nn_2'' ''r_nn_2''
   \<and> bindE (parse \<lparr>occur_index = False, discourse_id = None\<rparr>
            ''drs([],[[1001]:rel(x0,x1,r_nn,0)])'') nn
     \<noteq> Inr (DRS [] [BinaryExpression DrtEqualityExpression
                       (DrtVariableExpression (Variable ''x0''))
                       (DrtVariableExpression (Variable ''x1''))])"
  by code_simp

text \<open>
  C4, amended. On a tree of Atoms in which every Atom named \<open>r_nn_2\<close> is binary,
  \<open>_nn\<close> returns the tree that the spec's folding describes: each Atom whose name equals
  \<open>r_nn_2\<close> replaced, where it stands, by the Equality of its two arguments, the
  rewrite applied in every structural child, nothing else changed; in the result no Atom
  is named \<open>r_nn_2\<close>.
\<close>

theorem nn_folds_compound_nouns:
  assumes "atoms_all binary_if_nn e"
  shows "nn e = Inr (spec_compound_noun_folding e)
         \<and> atoms_all not_nn (spec_compound_noun_folding e)"
  using assms
proof (induction e)
  case (DRS refs conds)
  then have ih: "\<And>c. c \<in> set conds \<Longrightarrow>
      nn c = Inr (spec_compound_noun_folding c) \<and> atoms_all not_nn (spec_compound_noun_folding c)"
    by (simp add: list_all_iff)
  then have "mapE nn conds = Inr (map spec_compound_noun_folding conds)"
    by (intro mapE_Inr) simp
  with ih show ?case
    by (simp add: list_all_iff)
next
  case (DrtApplicationExpression f a)
  from DrtApplicationExpression.prems obtain p args where
    "uncurry f a = (DrtVariableExpression p, args)"
    "list_all is_variable_expression args" "binary_if_nn (name p) (length args)"
    by (auto simp: atoms_all.simps(5) split: prod.splits expr.splits)
  then show ?case
    using nn_atom by blast
qed simp_all

theorem nn_folds_compound_nouns_witness:
  "atoms_all binary_if_nn
     (DRS [Variable ''x0'']
        [DrtApplicationExpression
           (DrtApplicationExpression (DrtVariableExpression (Variable ''r_nn_2''))
              (DrtVariableExpression (Variable ''x0'')))
           (DrtVariableExpression (Variable ''x1'')),
         DrtNegatedExpression
           (DRS [] [DrtApplicationExpression (DrtVariableExpression (Variable ''n_dog_1''))
                      (DrtVariableExpression (Variable ''x1''))])])
   \<and> nn (DRS [Variable ''x0'']
        [DrtApplicationExpression
           (DrtApplicationExpression (DrtVariableExpression (Variable ''r_nn_2''))
              (DrtVariableExpression (Variable ''x0'')))
           (DrtVariableExpression (Variable ''x1'')),
         DrtNegatedExpression
           (DRS [] [DrtApplicationExpression (DrtVariableExpression (Variable ''n_dog_1''))
                      (DrtVariableExpression (Variable ''x1''))])])
     = Inr (DRS [Variable ''x0'']
        [BinaryExpression DrtEqualityExpression
           (DrtVariableExpression (Variable ''x0'')) (DrtVariableExpression (Variable ''x1'')),
         DrtNegatedExpression
           (DRS [] [DrtApplicationExpression (DrtVariableExpression (Variable ''n_dog_1''))
                      (DrtVariableExpression (Variable ''x1''))])])
   \<and> atoms_all not_nn (DRS [Variable ''x0'']
        [BinaryExpression DrtEqualityExpression
           (DrtVariableExpression (Variable ''x0'')) (DrtVariableExpression (Variable ''x1'')),
         DrtNegatedExpression
           (DRS [] [DrtApplicationExpression (DrtVariableExpression (Variable ''n_dog_1''))
                      (DrtVariableExpression (Variable ''x1''))])])"
proof -
  let ?e = "DRS [Variable ''x0'']
        [DrtApplicationExpression
           (DrtApplicationExpression (DrtVariableExpression (Variable ''r_nn_2''))
              (DrtVariableExpression (Variable ''x0'')))
           (DrtVariableExpression (Variable ''x1'')),
         DrtNegatedExpression
           (DRS [] [DrtApplicationExpression (DrtVariableExpression (Variable ''n_dog_1''))
                      (DrtVariableExpression (Variable ''x1''))])]"
  have h: "atoms_all binary_if_nn ?e"
    by (simp add: binary_if_nn_def)
  have s: "spec_compound_noun_folding ?e = DRS [Variable ''x0'']
        [BinaryExpression DrtEqualityExpression
           (DrtVariableExpression (Variable ''x0'')) (DrtVariableExpression (Variable ''x1'')),
         DrtNegatedExpression
           (DRS [] [DrtApplicationExpression (DrtVariableExpression (Variable ''n_dog_1''))
                      (DrtVariableExpression (Variable ''x1''))])]"
    by simp
  from nn_folds_compound_nouns [OF h] h show ?thesis
    unfolding s by simp
qed

subsection \<open>One result slot for each requested discourse (C5)\<close>

lemma loop_new_keys:
  "parse_to_drs_dict_loop simplify occ use lines i d0 = Inr d \<Longrightarrow> d k \<noteq> d0 k \<Longrightarrow>
     \<exists>j<length lines. startswith (lines ! j) ''id('' \<and> marker_discourse_id (lines ! j) = Inr k"
proof (induction simplify occ use lines i d0 rule: parse_to_drs_dict_loop.induct)
  case (1 simplify occ use lines i d0)
  show ?case
  proof (cases "i < length lines")
    case False
    with "1.prems" show ?thesis
      by (subst (asm) parse_to_drs_dict_loop.simps) simp
  next
    case inb: True
    show ?thesis
    proof (cases "startswith (lines ! i) ''id(''")
      case False
      with "1.prems" inb
      have "parse_to_drs_dict_loop simplify occ use lines (i + 1) d0 = Inr d"
        by (subst (asm) parse_to_drs_dict_loop.simps) simp
      from "1.IH"(2) [OF inb refl False this "1.prems"(2)] show ?thesis .
    next
      case True
      with "1.prems" inb obtain did inp e1 e2 e3 where
        a: "marker_discourse_id (lines ! i) = Inr did" and
        b: "locate_drs_input lines i (lines ! i) = Inr inp" and
        c: "parse \<lparr>occur_index = occ, discourse_id = if use then Some did else None\<rparr> inp
              = Inr e1" and
        d: "simplify e1 = Inr e2" and
        e: "clean_drs e2 = Inr e3" and
        f: "parse_to_drs_dict_loop simplify occ use lines (i + 8 + 1) (d0(did \<mapsto> e3)) = Inr d"
        by (subst (asm) parse_to_drs_dict_loop.simps) (auto simp: bindE_eq_Inr Let_def)
      show ?thesis
      proof (cases "k = did")
        case True
        with a inb \<open>startswith (lines ! i) ''id(''\<close> show ?thesis by blast
      next
        case False
        with "1.prems"(2) have "d k \<noteq> (d0(did \<mapsto> e3)) k" by simp
        from "1.IH"(1) [OF inb refl True a b c d e f this] show ?thesis .
      qed
    qed
  qed
qed

text \<open>
  C5. When a batch call with the requested identifiers \<open>ids\<close> returns, the result has
  one slot for each requested identifier, in the order of the request: the slot \<open>k\<close> is
  the entry of the dictionary for \<open>ids ! k\<close>. It is \<open>None\<close> when no marker line of the
  output carries this identifier.
\<close>

theorem batch_one_slot_per_discourse:
  assumes "batch_interpret_multisentence simplify boxer_out inputs occ (Some ids) = Inr res"
  shows "\<exists>d. parse_to_drs_dict simplify boxer_out occ True = Inr d
           \<and> length res = length ids
           \<and> (\<forall>k<length ids. \<exists>id. ids ! k = Some id \<and> res ! k = d id
                 \<and> ((\<forall>line \<in> set (split boxer_out (CHR 0x0A)).
                        startswith line ''id('' \<longrightarrow> marker_discourse_id line \<noteq> Inr id)
                      \<longrightarrow> res ! k = None))"
proof -
  from assms obtain d where
    all: "list_all (\<lambda>id. id \<noteq> None) ids" and
    d: "parse_to_drs_dict simplify boxer_out occ True = Inr d" and
    res: "res = map (\<lambda>id. d id) (map the ids)"
    by (auto simp: batch_interpret_multisentence_def bindE_eq_Inr split: if_splits)
  have "\<exists>id. ids ! k = Some id \<and> res ! k = d id
          \<and> ((\<forall>line \<in> set (split boxer_out (CHR 0x0A)).
                 startswith line ''id('' \<longrightarrow> marker_discourse_id line \<noteq> Inr id)
               \<longrightarrow> res ! k = None)" if k: "k < length ids" for k
  proof -
    from all k obtain id where id: "ids ! k = Some id"
      by (auto simp: list_all_length)
    with k res have rk: "res ! k = d id" by simp
    have "d id = None"
      if no: "\<forall>line \<in> set (split boxer_out (CHR 0x0A)).
                startswith line ''id('' \<longrightarrow> marker_discourse_id line \<noteq> Inr id"
    proof (rule ccontr)
      assume "d id \<noteq> None"
      then have "d id \<noteq> Map.empty id" by simp
      from loop_new_keys [OF d [unfolded parse_to_drs_dict_def Let_def] this]
      obtain j where "j < length (split boxer_out (CHR 0x0A))"
        "startswith (split boxer_out (CHR 0x0A) ! j) ''id(''"
        "marker_discourse_id (split boxer_out (CHR 0x0A) ! j) = Inr id"
        by blast
      with no show False by (meson nth_mem)
    qed
    with id rk show ?thesis by simp
  qed
  with d res show ?thesis by simp
qed

theorem batch_one_slot_per_discourse_witness:
  "batch_interpret_multisentence Inr
     ''id(2,2).\<newline>\<newline>\<newline>\<newline>sem(2,\<newline>\<newline>\<newline>\<newline>drs([],[])).\<newline>''
     [[''a''], [''b'']] False (Some [Some ''1'', Some ''2''])
   = Inr [None, Some (DRS [] [])]
   \<and> (\<exists>d. parse_to_drs_dict Inr
             ''id(2,2).\<newline>\<newline>\<newline>\<newline>sem(2,\<newline>\<newline>\<newline>\<newline>drs([],[])).\<newline>''
             False True = Inr d
          \<and> d ''1'' = None \<and> d ''2'' = Some (DRS [] []))"
proof -
  have e: "batch_interpret_multisentence Inr
     ''id(2,2).\<newline>\<newline>\<newline>\<newline>sem(2,\<newline>\<newline>\<newline>\<newline>drs([],[])).\<newline>''
     [[''a''], [''b'']] False (Some [Some ''1'', Some ''2''])
   = Inr [None, Some (DRS [] [])]"
    by code_simp
  from batch_one_slot_per_discourse [OF e] obtain d where
    d: "parse_to_drs_dict Inr
          ''id(2,2).\<newline>\<newline>\<newline>\<newline>sem(2,\<newline>\<newline>\<newline>\<newline>drs([],[])).\<newline>''
          False True = Inr d" and
    slots: "\<forall>k<length [Some ''1'', Some ''2''].
              \<exists>id. [Some ''1'', Some ''2''] ! k = Some id
                  \<and> [None, Some (DRS [] [])] ! k = d id"
    by blast
  from slots [rule_format, of 0] have "d ''1'' = None" by simp
  moreover from slots [rule_format, of 1] have "d ''2'' = Some (DRS [] [])" by simp
  ultimately show ?thesis using e d by simp
qed

subsection \<open>Decoding and encoding an index (C6)\<close>

text \<open>
  C6. Index decoding: for every integer \<open>n\<close> in \<open>[1001, 9999]\<close>, decoding it as
  sentence \<open>n/1000 - 1\<close> and word \<open>n%1000 - 1\<close> and re-encoding the pair as
  \<open>1000*(sentence+1)+(word+1)\<close> gives \<open>n\<close> back.
\<close>

theorem decode_encode_roundtrip:
  "1001 \<le> n \<Longrightarrow> n \<le> 9999 \<Longrightarrow> encode_index (decode_index n) = n"
  by (simp add: encode_index_def decode_index_def)

theorem decode_encode_roundtrip_witness:
  "(1001::int) \<le> 3004 \<and> (3004::int) \<le> 9999 \<and> decode_index 3004 = (2, 3)
   \<and> encode_index (decode_index 3004) = 3004"
  using decode_encode_roundtrip [of 3004] by (simp add: decode_index_def)

subsection \<open>The arity of parsed atoms (C7)\<close>

lemma arity_matches_make_Variable:
  "2 < length nm \<Longrightarrow> arity_matches (name (make_Variable nm)) k = arity_matches nm k"
  by (auto simp: arity_matches_def name_arity_def make_Variable_def)

lemmas arity_eval = arity_matches_def name_arity_def isdigit_def digit_val_def

lemma arity_make_pred:
  "arity_matches (name (make_Variable (make_pred self pos nm indices 1))) (Suc 0)"
  by (subst arity_matches_make_Variable)
     (simp_all add: make_pred_def Let_def arity_eval)

lemma arity_named: "arity_matches (name (make_Variable (''n_'' @ nm @ ''_1''))) (Suc 0)"
  by (subst arity_matches_make_Variable) (simp_all add: arity_eval)

lemma arity_rel: "arity_matches (name (make_Variable (''r_'' @ nm @ ''_2''))) 2"
  by (subst arity_matches_make_Variable) (simp_all add: arity_eval)

lemma arity_time: "arity_matches (name (make_Variable (''r_'' @ nm @ ''_1''))) (Suc 0)"
  by (subst arity_matches_make_Variable) (simp_all add: arity_eval)

lemma arity_fixed:
  "arity_matches (name (make_Variable ''r_card_3'')) 3"
  "arity_matches (name (make_Variable ''r_pol_2'')) 2"
  "arity_matches (name (make_Variable ''r_year_2'')) 2"
  "arity_matches (name (make_Variable ''r_month_2'')) 2"
  "arity_matches (name (make_Variable ''r_day_2'')) 2"
  "arity_matches (name (make_Variable ''r_hour_2'')) 2"
  "arity_matches (name (make_Variable ''r_min_2'')) 2"
  "arity_matches (name (make_Variable ''r_sec_2'')) 2"
  by (simp_all add: make_Variable_def startswith_def arity_eval)

lemmas arity_names = arity_make_pred arity_named arity_rel arity_time arity_fixed

lemma handle_pred_arity:
  "handle_pred self indices toks = Inr (e, rest) \<Longrightarrow> atoms_all arity_matches e"
  by (auto simp: handle_pred_def bindE_eq_Inr Let_def arity_names)

lemma handle_named_arity:
  "handle_named self indices toks = Inr (e, rest) \<Longrightarrow> atoms_all arity_matches e"
  using arity_named by (auto simp: handle_named_def bindE_eq_Inr Let_def)

lemma handle_rel_arity:
  "handle_rel self indices toks = Inr (e, rest) \<Longrightarrow> atoms_all arity_matches e"
  using arity_rel by (auto simp: handle_rel_def bindE_eq_Inr Let_def)

lemma handle_card_arity:
  "handle_card self indices toks = Inr (e, rest) \<Longrightarrow> atoms_all arity_matches e"
  by (auto simp: handle_card_def bindE_eq_Inr Let_def arity_names)

lemma handle_eq_arity:
  "handle_eq self indices toks = Inr (e, rest) \<Longrightarrow> atoms_all arity_matches e"
  by (auto simp: handle_eq_def bindE_eq_Inr Let_def)

lemma handle_date_arity:
  "handle_date arg toks = Inr (conds, rest) \<Longrightarrow> list_all (atoms_all arity_matches) conds"
  by (auto simp: handle_date_def bindE_eq_Inr Let_def arity_names split: if_splits)

lemma handle_time_arity:
  "handle_time arg toks = Inr (conds, rest) \<Longrightarrow> list_all (atoms_all arity_matches) conds"
  by (auto simp: handle_time_def bindE_eq_Inr Let_def arity_names split: if_splits)

lemma handle_timex_arity:
  "handle_timex self indices toks = Inr (Some conds, rest) \<Longrightarrow>
     list_all (atoms_all arity_matches) conds"
  using arity_time [of "''date''"] arity_time [of "''time''"]
  by (auto simp: handle_timex_def handle_time_expression_def time_expression_conds_def bindE_eq_Inr Let_def
           split: if_splits intro: handle_date_arity handle_time_arity)


lemma make_binary_expression_arity:
  assumes pe: "\<And>ts e r. pe ts = Inr (e, r) \<Longrightarrow> atoms_all arity_matches e"
  shows "make_binary_expression pe cls toks = Inr (e, rest) \<Longrightarrow> atoms_all arity_matches e"
  by (auto simp: make_binary_expression_def bindE_eq_Inr intro: pe)

lemma handle_prop_arity:
  assumes pe: "\<And>ts e r. pe ts = Inr (e, r) \<Longrightarrow> atoms_all arity_matches e"
  shows "handle_prop pe indices toks = Inr (e, rest) \<Longrightarrow> atoms_all arity_matches e"
  by (auto simp: handle_prop_def bindE_eq_Inr intro: pe)

lemma handle_whq_arity:
  assumes pe: "\<And>ts e r. pe ts = Inr (e, r) \<Longrightarrow> atoms_all arity_matches e"
  shows "handle_whq self pe indices toks = Inr (e, rest) \<Longrightarrow> atoms_all arity_matches e"
  by (auto simp: handle_whq_def bindE_eq_Inr whq_atoms_eq Let_def list_all_iff arity_eval
           intro: pe)

lemma handle_condition_arity:
  assumes pe: "\<And>ts e r. pe ts = Inr (e, r) \<Longrightarrow> atoms_all arity_matches e"
  shows "handle_condition self pe tok indices toks = Inr (Some conds, rest) \<Longrightarrow>
           list_all (atoms_all arity_matches) conds"
  by (auto simp: handle_condition_def bindE_eq_Inr split: if_splits
           intro: pe handle_pred_arity handle_named_arity handle_rel_arity handle_card_arity
                 handle_eq_arity handle_timex_arity
                 make_binary_expression_arity [OF pe] handle_prop_arity [OF pe]
                 handle_whq_arity [OF pe])

lemma parse_condition_arity:
  assumes pe: "\<And>ts e r. pe ts = Inr (e, r) \<Longrightarrow> atoms_all arity_matches e"
  shows "parse_condition self pe indices toks = Inr (conds, rest) \<Longrightarrow>
           list_all (atoms_all arity_matches) conds"
  by (auto simp: parse_condition_def bindE_eq_Inr split: option.splits
           intro: handle_condition_arity [OF pe])

lemma parse_drs_conds_arity:
  assumes pe: "\<And>ts e r. pe ts = Inr (e, r) \<Longrightarrow> atoms_all arity_matches e"
  shows "parse_drs_conds self pe n toks conds = Inr (cs, rest) \<Longrightarrow>
           list_all (atoms_all arity_matches) conds \<Longrightarrow> list_all (atoms_all arity_matches) cs"
proof (induction n arbitrary: toks conds)
  case 0
  then show ?case
    by (auto simp: bindE_eq_Inr split: if_splits)
next
  case (Suc n)
  from Suc.prems(1) obtain t0 where t0: "token0 toks = Inr t0"
    by (auto simp: bindE_eq_Inr)
  show ?case
  proof (cases "t0 = '']''")
    case True
    with Suc.prems t0 show ?thesis by simp
  next
    case False
    with Suc.prems(1) t0 obtain ixs ts new_conds ts' where
      c: "parse_condition self pe ixs ts = Inr (new_conds, ts')" and
      r: "parse_drs_conds self pe n ts' (conds @ new_conds) = Inr (cs, rest)
          \<or> parse_drs_conds self pe n (tl ts') (conds @ new_conds) = Inr (cs, rest)"
      by (auto simp: bindE_eq_Inr split: if_splits)
    from parse_condition_arity [OF pe c] Suc.prems(2)
    have "list_all (atoms_all arity_matches) (conds @ new_conds)" by simp
    with r Suc.IH show ?thesis by blast
  qed
qed

lemma parse_drs_arity:
  assumes pe: "\<And>ts e r. pe ts = Inr (e, r) \<Longrightarrow> atoms_all arity_matches e"
  shows "parse_drs self pe n toks = Inr (e, rest) \<Longrightarrow> atoms_all arity_matches e"
  using parse_drs_conds_arity [OF pe, where conds = "[]"]
  by (auto simp: parse_drs_def bindE_eq_Inr)

lemma handle_drs_arity:
  assumes pe: "\<And>ts e r. pe ts = Inr (e, r) \<Longrightarrow> atoms_all arity_matches e"
  shows "handle_drs self pe n tok toks = Inr (Some e, rest) \<Longrightarrow> atoms_all arity_matches e"
  by (auto simp: handle_drs_def bindE_eq_Inr split: if_splits
           intro: parse_drs_arity [OF pe] make_binary_expression_arity [OF pe])

text \<open>
  C7. Every tree the parser returns is made of Atoms whose number of arguments is the
  digit at the end of the predicate name: this covers the atoms of \<open>pred\<close>,
  \<open>named\<close>, \<open>rel\<close>, \<open>card\<close>, \<open>timex\<close> and \<open>whq\<close>, wherever they stand in
  the tree.
\<close>

theorem parsed_atoms_match_arity:
  "parse_Expression self n toks = Inr (e, rest) \<Longrightarrow> atoms_all arity_matches e"
proof (induction n arbitrary: toks e rest)
  case 0
  then show ?case by simp
next
  case (Suc n)
  from Suc.prems show ?case
    by (auto simp: bindE_eq_Inr split: option.splits intro: handle_drs_arity [OF Suc.IH])
qed

theorem parsed_atoms_match_arity_witness:
  "parse_Expression \<lparr>occur_index = True, discourse_id = Some ''t''\<rparr> 5
     [''drs'', ''('', ''['', ''['', ''1001'', '']'', '':'', ''_G1'', '']'', '','', ''['',
      ''['', ''1002'', '']'', '':'', ''pred'', ''('', ''_G1'', '','', ''dog'', '','', ''n'',
      '','', ''0'', '')'', '','',
      ''['', '']'', '':'', ''rel'', ''('', ''_G1'', '','', ''x1'', '','', ''agent'', '','',
      ''0'', '')'', '','',
      ''['', '']'', '':'', ''card'', ''('', ''_G1'', '','', ''2'', '','', ''ge'', '')'',
      '']'', '')'']
   = Inr (DRS [Variable ''z1'']
            [DrtApplicationExpression (DrtVariableExpression (Variable ''n_dog_t_s0_w1_1''))
               (DrtVariableExpression (Variable ''z1'')),
             DrtApplicationExpression
               (DrtApplicationExpression (DrtVariableExpression (Variable ''r_agent_2''))
                  (DrtVariableExpression (Variable ''z1'')))
               (DrtVariableExpression (Variable ''x1'')),
             DrtApplicationExpression
               (DrtApplicationExpression
                  (DrtApplicationExpression (DrtVariableExpression (Variable ''r_card_3''))
                     (DrtVariableExpression (Variable ''z1'')))
                  (DrtVariableExpression (Variable ''2'')))
               (DrtVariableExpression (Variable ''ge''))], [])
   \<and> atoms_all arity_matches
        (DRS [Variable ''z1'']
            [DrtApplicationExpression (DrtVariableExpression (Variable ''n_dog_t_s0_w1_1''))
               (DrtVariableExpression (Variable ''z1'')),
             DrtApplicationExpression
               (DrtApplicationExpression (DrtVariableExpression (Variable ''r_agent_2''))
                  (DrtVariableExpression (Variable ''z1'')))
               (DrtVariableExpression (Variable ''x1'')),
             DrtApplicationExpression
               (DrtApplicationExpression
                  (DrtApplicationExpression (DrtVariableExpression (Variable ''r_card_3''))
                     (DrtVariableExpression (Variable ''z1'')))
                  (DrtVariableExpression (Variable ''2'')))
               (DrtVariableExpression (Variable ''ge''))])"
proof -
  have e: "parse_Expression \<lparr>occur_index = True, discourse_id = Some ''t''\<rparr> 5
     [''drs'', ''('', ''['', ''['', ''1001'', '']'', '':'', ''_G1'', '']'', '','', ''['',
      ''['', ''1002'', '']'', '':'', ''pred'', ''('', ''_G1'', '','', ''dog'', '','', ''n'',
      '','', ''0'', '')'', '','',
      ''['', '']'', '':'', ''rel'', ''('', ''_G1'', '','', ''x1'', '','', ''agent'', '','',
      ''0'', '')'', '','',
      ''['', '']'', '':'', ''card'', ''('', ''_G1'', '','', ''2'', '','', ''ge'', '')'',
      '']'', '')'']
   = Inr (DRS [Variable ''z1'']
            [DrtApplicationExpression (DrtVariableExpression (Variable ''n_dog_t_s0_w1_1''))
               (DrtVariableExpression (Variable ''z1'')),
             DrtApplicationExpression
               (DrtApplicationExpression (DrtVariableExpression (Variable ''r_agent_2''))
                  (DrtVariableExpression (Variable ''z1'')))
               (DrtVariableExpression (Variable ''x1'')),
             DrtApplicationExpression
               (DrtApplicationExpression
                  (DrtApplicationExpression (DrtVariableExpression (Variable ''r_card_3''))
                     (DrtVariableExpression (Variable ''z1'')))
                  (DrtVariableExpression (Variable ''2'')))
               (DrtVariableExpression (Variable ''ge''))], [])"
    by code_simp
  from e parsed_atoms_match_arity [OF e] show ?thesis by (rule conjI)
qed

subsection \<open>An unrecognized condition keyword (C8)\<close>

text \<open>
  C8. At a condition position the parser calls \<open>parse_condition\<close>; when the token
  there is none of the condition keywords, it fails with the exception that carries this
  token, whatever follows: no condition is skipped and no tree is returned.
\<close>

theorem unrecognized_condition_fails:
  "tok \<notin> set condition_keywords \<Longrightarrow>
     parse_condition self pe indices (tok # toks) = Inl (UnexpectedTokenException tok None)"
  by (simp add: parse_condition_def handle_condition_def condition_keywords_def)

theorem unrecognized_condition_fails_witness:
  "''foo'' \<notin> set condition_keywords
   \<and> parse_condition \<lparr>occur_index = False, discourse_id = None\<rparr>
        (parse_Expression \<lparr>occur_index = False, discourse_id = None\<rparr> 3) []
        [''foo'', ''('', ''x0'', '')'']
      = Inl (UnexpectedTokenException ''foo'' None)
   \<and> parse \<lparr>occur_index = False, discourse_id = None\<rparr>
        ''drs([[1001]:x0],[[1002]:pred(x0,dog,n,0),[1003]:foo(x0)])''
      = Inl (UnexpectedTokenException ''foo'' None)"
proof -
  have k: "''foo'' \<notin> set condition_keywords"
    by (simp add: condition_keywords_def)
  have p: "parse \<lparr>occur_index = False, discourse_id = None\<rparr>
        ''drs([[1001]:x0],[[1002]:pred(x0,dog,n,0),[1003]:foo(x0)])''
      = Inl (UnexpectedTokenException ''foo'' None)"
    by code_simp
  from k unrecognized_condition_fails [OF k] p show ?thesis
    by (intro conjI)
qed

subsection \<open>Variable names (C9)\<close>

text \<open>
  C9. \<open>_make_Variable\<close> rewrites a name that begins with \<open>_G\<close> to \<open>z\<close> followed
  by the rest of the name and leaves every other name as it is, also one that begins with
  \<open>z\<close>; two tokens give the same \<open>Variable\<close> exactly when the rewritten names are
  equal.
\<close>

theorem make_Variable_rewrite:
  "make_Variable (''_G'' @ rest) = Variable (''z'' @ rest)
   \<and> (\<not> startswith nm ''_G'' \<longrightarrow> make_Variable nm = Variable nm)
   \<and> make_Variable (''z'' @ rest) = Variable (''z'' @ rest)
   \<and> (make_Variable a = make_Variable b \<longleftrightarrow> name (make_Variable a) = name (make_Variable b))"
  by (auto simp: make_Variable_def startswith_def variable.expand)

theorem make_Variable_rewrite_witness:
  "make_Variable ''_G3943'' = Variable ''z3943''
   \<and> \<not> startswith ''x0'' ''_G'' \<and> make_Variable ''x0'' = Variable ''x0''
   \<and> make_Variable ''z3943'' = Variable ''z3943''
   \<and> make_Variable ''_G3943'' = make_Variable ''z3943''"
  using make_Variable_rewrite [of "''3943''" "''x0''" "''_G3943''" "''z3943''"]
  by (simp add: startswith_def)

subsection \<open>A marker line near the end of the output (C10)\<close>

text \<open>
  C10. Two outputs with a marker line fewer than nine lines before the end: one where
  the line at offset 4 is missing, one where the header at offset 4 is there and the line
  at offset 8 is missing. Both end in IndexError, before any term is parsed.
\<close>

theorem demultiplexer_index_out_of_range:
  "parse_to_drs_dict simplify ''id(a,1).'' occ use = Inl IndexError
   \<and> parse_to_drs_dict simplify
        ''id(a,1).\<newline>\<newline>\<newline>\<newline>sem(1,\<newline>\<newline>'' occ use = Inl IndexError"
  by (simp add: parse_to_drs_dict_def split_def parse_to_drs_dict_loop.simps startswith_def
        marker_discourse_id_def locate_drs_input_def slice_def getitem_def)

end
